theory Spec2Isabelle
  imports Main "HOL-Library.Word" "HOL-Library.Sublist"
begin

section \<open>The chat and upload client of \<^verbatim>\<open>src/scripts/script.js\<close>\<close>

text \<open>
  The script is one \<^verbatim>\<open>DOMContentLoaded\<close> handler. It owns a variable
  \<^verbatim>\<open>lastUploadedFileName\<close>, four functions (\<^verbatim>\<open>addMessage\<close>,
  \<^verbatim>\<open>setUploadStatus\<close>, \<^verbatim>\<open>sendMessage\<close>, \<^verbatim>\<open>uploadFile\<close>) and three
  event listeners. The model below is a state-passing translation: the state is the part
  of the page and of the environment that the script reads or writes, every
  \<^verbatim>\<open>throw\<close> and rejected promise is a value, and each \<^verbatim>\<open>async\<close> function is
  cut at its \<^verbatim>\<open>await fetch\<close> into the part that runs at once and the part that runs
  when the request settles.
\<close>

subsection \<open>Strings\<close>

text \<open>
  A JavaScript string is a sequence of 16-bit code units. A literal of the source is
  written \<open>lit ''...''\<close> (all literals of the script are ASCII).
\<close>

type_synonym js_string = "16 word list"

definition lit :: "string \<Rightarrow> js_string" where
  "lit s = map (\<lambda>c. of_nat (of_char c)) s"

text \<open>
  \<^verbatim>\<open>String.prototype.trim\<close> strips the code units of ECMAScript's WhiteSpace and
  LineTerminator productions from both ends.
\<close>

definition is_space :: "16 word \<Rightarrow> bool" where
  "is_space c \<longleftrightarrow>
     c \<in> {0x09, 0x0A, 0x0B, 0x0C, 0x0D, 0x20, 0xA0, 0x1680, 0x2028, 0x2029,
          0x202F, 0x205F, 0x3000, 0xFEFF} \<or> (0x2000 \<le> c \<and> c \<le> 0x200A)"

definition trim :: "js_string \<Rightarrow> js_string" where
  "trim s = rev (dropWhile is_space (rev (dropWhile is_space s)))"

text \<open>\<^verbatim>\<open>Number.prototype.toString\<close> on a non-negative integer below \<open>10^21\<close>:
  its decimal digits.\<close>

function decimal :: "nat \<Rightarrow> js_string" where
  "decimal n = (if n < 10 then [of_nat (48 + n)]
                else decimal (n div 10) @ [of_nat (48 + n mod 10)])"
  by pat_completeness auto
termination
  by (relation "measure id") auto

declare decimal.simps [simp del]

subsection \<open>Values, errors and conversions\<close>

text \<open>
  What \<^verbatim>\<open>response.json()\<close> can resolve to. A number is carried by the two things
  the script can observe of it: whether it is zero (its truthiness), and its rendering by
  \<^verbatim>\<open>Number.prototype.toString\<close>. An object is the list of its own properties, each
  name once; a property is looked up by its name.
\<close>

datatype json =
    JNull
  | JBool bool
  | JNum (is_zero: bool) (num_text: js_string)
  | JStr js_string
  | JArr "json list"
  | JObj "(js_string \<times> json) list"

text \<open>A value of the script: \<^verbatim>\<open>undefined\<close>, or one of the above.\<close>

datatype jsval = Undefined | Json json

abbreviation Str :: "js_string \<Rightarrow> jsval" where
  "Str s \<equiv> Json (JStr s)"

text \<open>
  Everything that can be thrown or rejected in the two \<^verbatim>\<open>try\<close> blocks:
  \<^item> \<open>FetchFailed m\<close>: \<^verbatim>\<open>fetch\<close> rejected (no response), with the error's message;
  \<^item> \<open>BodyFailed m\<close>: \<^verbatim>\<open>response.json()\<close> rejected, with the error's message;
  \<^item> \<open>NullProperty p\<close>: the TypeError of reading property \<open>p\<close> of \<^verbatim>\<open>null\<close>;
  \<^item> \<open>NotPrimitive\<close>: the TypeError of converting an object to a string when its own
    \<^verbatim>\<open>toString\<close> property is not callable;
  \<^item> \<open>Error m\<close>: \<^verbatim>\<open>new Error(m)\<close>, thrown by \<^verbatim>\<open>uploadFile\<close>.
\<close>

datatype js_error =
    FetchFailed js_string
  | BodyFailed js_string
  | NullProperty js_string
  | NotPrimitive
  | Error js_string

text \<open>The message texts of the engine's own TypeErrors differ between engines.\<close>

record engine =
  nullPropertyText :: "js_string \<Rightarrow> js_string"
  notPrimitiveText :: js_string

fun error_message :: "engine \<Rightarrow> js_error \<Rightarrow> js_string" where
  "error_message E (FetchFailed m) = m"
| "error_message E (BodyFailed m) = m"
| "error_message E (NullProperty p) = nullPropertyText E p"
| "error_message E NotPrimitive = notPrimitiveText E"
| "error_message E (Error m) = m"

text \<open>
  Property read \<^verbatim>\<open>v.p\<close> for the three names the script reads (\<^verbatim>\<open>response\<close>,
  \<^verbatim>\<open>message\<close>, \<^verbatim>\<open>filename\<close>), none of which any built-in prototype defines:
  \<^verbatim>\<open>null\<close> throws, an object gives its own property or \<^verbatim>\<open>undefined\<close>, every other
  value gives \<^verbatim>\<open>undefined\<close>.
\<close>

fun get_prop :: "json \<Rightarrow> js_string \<Rightarrow> js_error + jsval" where
  "get_prop JNull p = Inl (NullProperty p)"
| "get_prop (JObj fs) p = Inr (case map_of fs p of None \<Rightarrow> Undefined | Some v \<Rightarrow> Json v)"
| "get_prop _ p = Inr Undefined"

text \<open>Truthiness, as \<^verbatim>\<open>||\<close> tests it.\<close>

fun truthy :: "jsval \<Rightarrow> bool" where
  "truthy Undefined = False"
| "truthy (Json JNull) = False"
| "truthy (Json (JBool b)) = b"
| "truthy (Json (JNum z t)) = (\<not> z)"
| "truthy (Json (JStr s)) = (s \<noteq> [])"
| "truthy (Json (JArr xs)) = True"
| "truthy (Json (JObj fs)) = True"

text \<open>
  ECMAScript's ToString, as a template literal and the DOM string setters apply it.
  An array is joined with commas, \<^verbatim>\<open>null\<close> elements rendering as nothing; an object
  renders as \<^verbatim>\<open>[object Object]\<close> unless it has an own \<^verbatim>\<open>toString\<close> property,
  which hides \<^verbatim>\<open>Object.prototype.toString\<close> and, not being callable, makes the
  conversion throw.
\<close>

fun ToString :: "json \<Rightarrow> js_error + js_string"
  and join :: "json list \<Rightarrow> js_error + js_string" where
  "ToString JNull = Inr (lit ''null'')"
| "ToString (JBool b) = Inr (if b then lit ''true'' else lit ''false'')"
| "ToString (JNum z t) = Inr t"
| "ToString (JStr s) = Inr s"
| "ToString (JArr xs) = join xs"
| "ToString (JObj fs) =
     (if lit ''toString'' \<in> fst ` set fs then Inl NotPrimitive
      else Inr (lit ''[object Object]''))"
| "join [] = Inr []"
| "join (x # xs) =
     (case (if x = JNull then Inr [] else ToString x) of
        Inl e \<Rightarrow> Inl e
      | Inr s \<Rightarrow>
          (if xs = [] then Inr s
           else case join xs of Inl e \<Rightarrow> Inl e | Inr t \<Rightarrow> Inr (s @ lit '','' @ t)))"

fun ToString_val :: "jsval \<Rightarrow> js_error + js_string" where
  "ToString_val Undefined = Inr (lit ''undefined'')"
| "ToString_val (Json v) = ToString v"

text \<open>
  Assignment to \<^verbatim>\<open>textContent\<close> (a nullable DOM string): \<^verbatim>\<open>null\<close> and
  \<^verbatim>\<open>undefined\<close> give the empty string, everything else goes through ToString.
\<close>

fun text_of :: "jsval \<Rightarrow> js_error + js_string" where
  "text_of Undefined = Inr []"
| "text_of (Json JNull) = Inr []"
| "text_of (Json v) = ToString v"

text \<open>
  \<^verbatim>\<open>JSON.stringify\<close>. The serialised text is represented by the JSON value it
  denotes, the value that \<^verbatim>\<open>JSON.parse\<close> gives back for it. A number that is not
  finite (its rendering is \<^verbatim>\<open>Infinity\<close> or \<^verbatim>\<open>-Infinity\<close>; \<^verbatim>\<open>NaN\<close> is no parsed
  value) is written as \<^verbatim>\<open>null\<close>, inside arrays and objects too; every other parsed
  value is written as a text that denotes it. No parsed value has a callable
  \<^verbatim>\<open>toJSON\<close>.
\<close>

definition non_finite :: "js_string \<Rightarrow> bool" where
  "non_finite t \<longleftrightarrow> t = lit ''Infinity'' \<or> t = lit ''-Infinity''"

primrec JSON_value :: "json \<Rightarrow> json" where
  "JSON_value JNull = JNull"
| "JSON_value (JBool b) = JBool b"
| "JSON_value (JNum z t) = (if non_finite t then JNull else JNum z t)"
| "JSON_value (JStr s) = JStr s"
| "JSON_value (JArr xs) = JArr (map JSON_value xs)"
| "JSON_value (JObj fs) = JObj (map (map_prod id JSON_value) fs)"

text \<open>
  \<^verbatim>\<open>JSON.stringify\<close> of an object literal whose property values are values of the
  script: a property whose value is \<^verbatim>\<open>undefined\<close> is left out, the others are
  serialised in order.
\<close>

fun JSON_stringify :: "(js_string \<times> jsval) list \<Rightarrow> json" where
  "JSON_stringify ps =
     JObj (concat (map (\<lambda>(k, v). case v of Undefined \<Rightarrow> [] | Json j \<Rightarrow> [(k, JSON_value j)]) ps))"

subsection \<open>The page and the environment\<close>

text \<open>An element created by \<^verbatim>\<open>document.createElement\<close>; \<open>nid\<close> is its identity.\<close>

record element =
  nid :: nat
  classList :: "js_string list"
  textContent :: js_string

record js_file =
  file_name :: js_string
  file_bytes :: "8 word list"

datatype req_body = JsonText json | FormData "(js_string \<times> js_file) list"

record request =
  url :: js_string
  http_method :: js_string
  headers :: "(js_string \<times> js_string) list"
  body :: req_body

text \<open>
  A response: its status code (an unsigned 16-bit integer) and what
  \<^verbatim>\<open>response.json()\<close> settles to, a rejection or the parsed body.
\<close>

record response =
  status :: "16 word"
  json_body :: "js_error + json"

definition ok :: "response \<Rightarrow> bool" where
  "ok r \<longleftrightarrow> 200 \<le> status r \<and> status r \<le> 299"

datatype fetch_outcome = Rejected js_error | Responded response

datatype log_arg = ArgVal jsval | ArgErr js_error | ArgResponse response

datatype console_entry =
    ConsoleError js_string "log_arg list"
  | ConsoleLog js_string "log_arg list"

text \<open>
  The state: the children of \<^verbatim>\<open>#chat-box\<close> in display order (the transcript), the
  value of \<^verbatim>\<open>#user-input\<close>, the first selected file of \<^verbatim>\<open>#csvFileInput\<close>, the
  text and class of \<^verbatim>\<open>#uploadStatus\<close>, the script's variable, and of the
  environment: the next fresh element identity, the clock in milliseconds, the due times
  of the pending \<^verbatim>\<open>setTimeout\<close> callbacks (all of them the callback of
  \<^verbatim>\<open>setUploadStatus\<close>), the requests issued so far and the console.
  The scroll position that \<^verbatim>\<open>addMessage\<close> sets is layout and is not modelled.
\<close>

record client =
  chatBox :: "element list"
  userInput :: js_string
  csvFile :: "js_file option"
  statusText :: js_string
  statusClass :: js_string
  lastUploadedFileName :: jsval
  nextNode :: nat
  now :: nat
  timers :: "nat list"
  requests :: "request list"
  console :: "console_entry list"

text \<open>A statement either completes or throws; the state it reached is kept either way.\<close>

datatype outcome = Done client | Threw js_error client

subsection \<open>\<^verbatim>\<open>addMessage\<close> and \<^verbatim>\<open>setUploadStatus\<close>\<close>

text \<open>\<^verbatim>\<open>classList.add\<close>: each token is added unless already present.\<close>

fun classList_add :: "js_string list \<Rightarrow> js_string list \<Rightarrow> js_string list" where
  "classList_add cs [] = cs"
| "classList_add cs (t # ts) = classList_add (if t \<in> set cs then cs else cs @ [t]) ts"

definition createElement :: "client \<Rightarrow> element \<times> client" where
  "createElement st =
     (\<lparr>nid = nextNode st, classList = [], textContent = []\<rparr>,
      st\<lparr>nextNode := Suc (nextNode st)\<rparr>)"

definition addMessage :: "jsval \<Rightarrow> js_string \<Rightarrow> client \<Rightarrow> outcome" where
  "addMessage message sender st =
     (let (messageDiv, st1) = createElement st;
          messageDiv1 = messageDiv\<lparr>classList :=
            classList_add (classList messageDiv) [lit ''message'', sender @ lit ''-message'']\<rparr>
      in case text_of message of
           Inl e \<Rightarrow> Threw e st1
         | Inr t \<Rightarrow> Done (st1\<lparr>chatBox := chatBox st1 @ [messageDiv1\<lparr>textContent := t\<rparr>]\<rparr>))"

definition status_delay :: nat where
  "status_delay = 5000"

text \<open>The callback that \<^verbatim>\<open>setUploadStatus\<close> hands to \<^verbatim>\<open>setTimeout\<close>.\<close>

definition clear_status :: "client \<Rightarrow> client" where
  "clear_status st = st\<lparr>statusText := [], statusClass := lit ''status-message''\<rparr>"

text \<open>Every call of the script passes both arguments, so the default of
  \<^verbatim>\<open>type\<close> is never used.\<close>

definition setUploadStatus :: "jsval \<Rightarrow> js_string \<Rightarrow> client \<Rightarrow> outcome" where
  "setUploadStatus message type st =
     (case text_of message of
        Inl e \<Rightarrow> Threw e st
      | Inr t \<Rightarrow>
          Done (st\<lparr>statusText := t,
                  statusClass := lit ''status-message '' @ type,
                  timers := timers st @ [now st + status_delay]\<rparr>))"

text \<open>
  Time passes by \<open>d\<close> milliseconds with the event loop idle: every timer that has come
  due runs its callback, in the order the timers were set, and is discarded.
\<close>

definition elapse :: "nat \<Rightarrow> client \<Rightarrow> client" where
  "elapse d st =
     (let t = now st + d;
          due = filter (\<lambda>k. k \<le> t) (timers st);
          st1 = fold (\<lambda>_. clear_status) due st
      in st1\<lparr>now := t, timers := filter (\<lambda>k. t < k) (timers st)\<rparr>)"

subsection \<open>\<^verbatim>\<open>sendMessage\<close>\<close>

definition console_error :: "js_string \<Rightarrow> log_arg list \<Rightarrow> client \<Rightarrow> client" where
  "console_error label args st = st\<lparr>console := console st @ [ConsoleError label args]\<rparr>"

definition console_log :: "js_string \<Rightarrow> log_arg list \<Rightarrow> client \<Rightarrow> client" where
  "console_log label args st = st\<lparr>console := console st @ [ConsoleLog label args]\<rparr>"

text \<open>
  \<^verbatim>\<open>fetch(url, init)\<close> up to the point where the request has left: it is recorded.
\<close>

definition fetch :: "request \<Rightarrow> client \<Rightarrow> client" where
  "fetch rq st = st\<lparr>requests := requests st @ [rq]\<rparr>"

text \<open>
  \<^verbatim>\<open>chatBox.contains(node)\<close> and \<^verbatim>\<open>chatBox.removeChild(node)\<close>, the node given by
  its identity. A node occurs at most once among the children of its parent, so removing
  it leaves the children whose identity is another.
\<close>

definition contains :: "element list \<Rightarrow> nat \<Rightarrow> bool" where
  "contains box n \<longleftrightarrow> n \<in> nid ` set box"

definition removeChild :: "element list \<Rightarrow> nat \<Rightarrow> element list" where
  "removeChild box n = filter (\<lambda>e. nid e \<noteq> n) box"

definition remove_loading :: "nat \<Rightarrow> client \<Rightarrow> client" where
  "remove_loading loadingMessageDiv st =
     (if contains (chatBox st) loadingMessageDiv
      then st\<lparr>chatBox := removeChild (chatBox st) loadingMessageDiv\<rparr>
      else st)"

text \<open>
  An \<^verbatim>\<open>async\<close> function that throws out of its body rejects its promise; no caller
  of the script handles that, so the state stays as the throw left it.
\<close>

fun settle :: "outcome \<Rightarrow> client" where
  "settle (Done st) = st"
| "settle (Threw e st) = st"

definition chat_url :: js_string where
  "chat_url = lit ''http://127.0.0.1:5000/chat''"

definition typing_text :: js_string where
  "typing_text = lit ''...typing...''"

definition connect_failure_text :: js_string where
  "connect_failure_text =
     lit ''Oops! Could not connect to the chatbot server. Please check if the backend is running.''"

definition chat_request :: "js_string \<Rightarrow> jsval \<Rightarrow> request" where
  "chat_request message remembered =
     \<lparr>url = chat_url, http_method = lit ''POST'',
      headers = [(lit ''Content-Type'', lit ''application/json'')],
      body = JsonText (JSON_stringify
               [(lit ''message'', Str message), (lit ''last_uploaded_file'', remembered)])\<rparr>"

text \<open>
  Lines 32 to 58: the part of \<^verbatim>\<open>sendMessage\<close> that runs until the request has been
  issued. The result carries the identity of the placeholder element when a request is
  pending, and \<open>None\<close> when the function returned at line 33 or threw.
\<close>

definition sendMessage_begin :: "client \<Rightarrow> client \<times> nat option" where
  "sendMessage_begin st =
     (let message = trim (userInput st) in
      if message = [] then (st, None)
      else
        (case addMessage (Str message) (lit ''user'') st of
           Threw e st1 \<Rightarrow> (st1, None)
         | Done st1 \<Rightarrow>
             (let st2 = st1\<lparr>userInput := []\<rparr>;
                  (loadingMessageDiv, st3) = createElement st2;
                  loadingMessageDiv1 = loadingMessageDiv\<lparr>classList :=
                    classList_add (classList loadingMessageDiv) [lit ''message'', lit ''bot-message''],
                    textContent := typing_text\<rparr>;
                  st4 = st3\<lparr>chatBox := chatBox st3 @ [loadingMessageDiv1]\<rparr>;
                  st5 = fetch (chat_request message (lastUploadedFileName st4)) st4
              in (st5, Some (nid loadingMessageDiv1)))))"

text \<open>Lines 75 to 82: the \<^verbatim>\<open>catch\<close> block.\<close>

definition sendMessage_catch :: "nat \<Rightarrow> js_error \<Rightarrow> client \<Rightarrow> client" where
  "sendMessage_catch loadingMessageDiv err st =
     (let st1 = remove_loading loadingMessageDiv st;
          st2 = console_error (lit ''Network or parsing error:'') [ArgErr err] st1
      in settle (addMessage (Str connect_failure_text) (lit ''bot'') st2))"

definition http_error_text :: "response \<Rightarrow> js_string" where
  "http_error_text r = lit ''HTTP error! status: '' @ decimal (unat (status r))"

text \<open>
  Lines 58 to 82: the part of \<^verbatim>\<open>sendMessage\<close> that runs once \<^verbatim>\<open>fetch\<close> has
  settled, for the placeholder created before.
\<close>

definition sendMessage_complete :: "nat \<Rightarrow> fetch_outcome \<Rightarrow> client \<Rightarrow> client" where
  "sendMessage_complete loadingMessageDiv out st =
     (case out of
        Rejected err \<Rightarrow> sendMessage_catch loadingMessageDiv err st
      | Responded r \<Rightarrow>
          (let st1 = remove_loading loadingMessageDiv st in
           if \<not> ok r then
             (let errorData = (case json_body r of Inl _ \<Rightarrow> JObj [] | Inr d \<Rightarrow> d) in
              case get_prop errorData (lit ''response'') of
                Inl e \<Rightarrow> sendMessage_catch loadingMessageDiv e st1
              | Inr v \<Rightarrow>
                  (let errorMessage = (if truthy v then v else Str (http_error_text r));
                       st2 = console_error (lit ''Backend responded with an error:'')
                               [ArgVal errorMessage, ArgResponse r] st1
                   in case ToString_val errorMessage of
                        Inl e \<Rightarrow> sendMessage_catch loadingMessageDiv e st2
                      | Inr s \<Rightarrow>
                          (case addMessage (Str (lit ''Bot Error: '' @ s)) (lit ''bot'') st2 of
                             Threw e st3 \<Rightarrow> sendMessage_catch loadingMessageDiv e st3
                           | Done st3 \<Rightarrow> st3)))
           else
             (case json_body r of
                Inl e \<Rightarrow> sendMessage_catch loadingMessageDiv e st1
              | Inr data \<Rightarrow>
                  (case get_prop data (lit ''response'') of
                     Inl e \<Rightarrow> sendMessage_catch loadingMessageDiv e st1
                   | Inr v \<Rightarrow>
                       (case addMessage v (lit ''bot'') st1 of
                          Threw e st2 \<Rightarrow> sendMessage_catch loadingMessageDiv e st2
                        | Done st2 \<Rightarrow> st2)))))"

text \<open>One invocation of \<^verbatim>\<open>sendMessage\<close> whose request settles with \<open>out\<close>.\<close>

definition sendMessage :: "fetch_outcome \<Rightarrow> client \<Rightarrow> client" where
  "sendMessage out st =
     (case sendMessage_begin st of
        (st1, None) \<Rightarrow> st1
      | (st1, Some loadingMessageDiv) \<Rightarrow> sendMessage_complete loadingMessageDiv out st1)"

subsection \<open>\<^verbatim>\<open>uploadFile\<close>\<close>

definition upload_url :: js_string where
  "upload_url = lit ''http://127.0.0.1:5000/upload''"

definition upload_request :: "js_file \<Rightarrow> request" where
  "upload_request f =
     \<lparr>url = upload_url, http_method = lit ''POST'', headers = [],
      body = FormData [(lit ''file'', f)]\<rparr>"

text \<open>The template literal of line 113; \<open>0x22\<close> and \<open>0x27\<close> are the two quote marks.\<close>

definition uploaded_text :: "js_string \<Rightarrow> js_string" where
  "uploaded_text filename =
     lit ''File '' @ [0x22] @ filename @ [0x22] @ lit '' uploaded successfully to '' @ [0x27] @
     lit ''mangodata'' @ [0x27] @ lit '' folder. You can now refer to it in your queries.''"

text \<open>
  Lines 87 to 102: the part of \<^verbatim>\<open>uploadFile\<close> that runs until the request has been
  issued; the flag tells whether a request is pending.
\<close>

definition uploadFile_begin :: "client \<Rightarrow> client \<times> bool" where
  "uploadFile_begin st =
     (case csvFile st of
        None \<Rightarrow> (settle (setUploadStatus (Str (lit ''Please select a file first.'')) (lit ''error'') st),
                 False)
      | Some f \<Rightarrow>
          (case setUploadStatus (Str (lit ''Uploading...'')) (lit ''info'') st of
             Threw e st1 \<Rightarrow> (st1, False)
           | Done st1 \<Rightarrow> (fetch (upload_request f) st1, True)))"

text \<open>Lines 115 to 118: the \<^verbatim>\<open>catch\<close> block.\<close>

definition uploadFile_catch :: "engine \<Rightarrow> js_error \<Rightarrow> client \<Rightarrow> client" where
  "uploadFile_catch E err st =
     (case setUploadStatus (Str (lit ''Upload failed: '' @ error_message E err)) (lit ''error'') st of
        Threw e st1 \<Rightarrow> st1
      | Done st1 \<Rightarrow> console_error (lit ''Upload error:'') [ArgErr err] st1)"

text \<open>Lines 102 to 118: the part of \<^verbatim>\<open>uploadFile\<close> that runs once \<^verbatim>\<open>fetch\<close> has
  settled.\<close>

definition uploadFile_complete :: "engine \<Rightarrow> fetch_outcome \<Rightarrow> client \<Rightarrow> client" where
  "uploadFile_complete E out st =
     (case out of
        Rejected err \<Rightarrow> uploadFile_catch E err st
      | Responded r \<Rightarrow>
          if \<not> ok r then
            (let errorData = (case json_body r of Inl _ \<Rightarrow> JObj [] | Inr d \<Rightarrow> d) in
             case get_prop errorData (lit ''message'') of
               Inl e \<Rightarrow> uploadFile_catch E e st
             | Inr v \<Rightarrow>
                 (let errorMessage = (if truthy v then v else Str (http_error_text r)) in
                  case ToString_val errorMessage of
                    Inl e \<Rightarrow> uploadFile_catch E e st
                  | Inr m \<Rightarrow> uploadFile_catch E (Error m) st))
          else
            (case json_body r of
               Inl e \<Rightarrow> uploadFile_catch E e st
             | Inr data \<Rightarrow>
                 (case get_prop data (lit ''message'') of
                    Inl e \<Rightarrow> uploadFile_catch E e st
                  | Inr m \<Rightarrow>
                      (case setUploadStatus m (lit ''success'') st of
                         Threw e st1 \<Rightarrow> uploadFile_catch E e st1
                       | Done st1 \<Rightarrow>
                           (case get_prop data (lit ''filename'') of
                              Inl e \<Rightarrow> uploadFile_catch E e st1
                            | Inr filename \<Rightarrow>
                                (let st2 = st1\<lparr>lastUploadedFileName := filename\<rparr> in
                                 case ToString_val filename of
                                   Inl e \<Rightarrow> uploadFile_catch E e st2
                                 | Inr s \<Rightarrow>
                                     (case addMessage (Str (uploaded_text s)) (lit ''bot'') st2 of
                                        Threw e st3 \<Rightarrow> uploadFile_catch E e st3
                                      | Done st3 \<Rightarrow>
                                          console_log (lit ''File uploaded:'') [ArgVal filename] st3)))))))"

text \<open>One invocation of \<^verbatim>\<open>uploadFile\<close> whose request settles with \<open>out\<close>.\<close>

definition uploadFile :: "engine \<Rightarrow> fetch_outcome \<Rightarrow> client \<Rightarrow> client" where
  "uploadFile E out st =
     (case uploadFile_begin st of
        (st1, False) \<Rightarrow> st1
      | (st1, True) \<Rightarrow> uploadFile_complete E out st1)"

text \<open>
  The \<^verbatim>\<open>try\<close> block of lines 98 to 114 on its own, once \<^verbatim>\<open>fetch\<close> has settled:
  \<open>Done\<close> when it runs to its end at line 114, \<open>Threw\<close> when it leaves for the
  \<^verbatim>\<open>catch\<close> block. An invocation of \<^verbatim>\<open>uploadFile\<close> completes successfully when the
  block is \<open>Done\<close>; \<open>uploadFile_complete\<close> is this block followed, when it threw, by
  \<open>uploadFile_catch\<close> (lemma \<open>uploadFile_complete_try\<close>).
\<close>

definition uploadFile_try :: "fetch_outcome \<Rightarrow> client \<Rightarrow> outcome" where
  "uploadFile_try out st =
     (case out of
        Rejected err \<Rightarrow> Threw err st
      | Responded r \<Rightarrow>
          if \<not> ok r then
            (let errorData = (case json_body r of Inl _ \<Rightarrow> JObj [] | Inr d \<Rightarrow> d) in
             case get_prop errorData (lit ''message'') of
               Inl e \<Rightarrow> Threw e st
             | Inr v \<Rightarrow>
                 (let errorMessage = (if truthy v then v else Str (http_error_text r)) in
                  case ToString_val errorMessage of
                    Inl e \<Rightarrow> Threw e st
                  | Inr m \<Rightarrow> Threw (Error m) st))
          else
            (case json_body r of
               Inl e \<Rightarrow> Threw e st
             | Inr data \<Rightarrow>
                 (case get_prop data (lit ''message'') of
                    Inl e \<Rightarrow> Threw e st
                  | Inr m \<Rightarrow>
                      (case setUploadStatus m (lit ''success'') st of
                         Threw e st1 \<Rightarrow> Threw e st1
                       | Done st1 \<Rightarrow>
                           (case get_prop data (lit ''filename'') of
                              Inl e \<Rightarrow> Threw e st1
                            | Inr filename \<Rightarrow>
                                (let st2 = st1\<lparr>lastUploadedFileName := filename\<rparr> in
                                 case ToString_val filename of
                                   Inl e \<Rightarrow> Threw e st2
                                 | Inr s \<Rightarrow>
                                     (case addMessage (Str (uploaded_text s)) (lit ''bot'') st2 of
                                        Threw e st3 \<Rightarrow> Threw e st3
                                      | Done st3 \<Rightarrow>
                                          Done (console_log (lit ''File uploaded:'')
                                                  [ArgVal filename] st3))))))))"

subsection \<open>The event loop\<close>

text \<open>
  What can happen to the page once the script has run: the user edits the input or picks
  a file, clicks one of the two buttons or presses a key in the input (lines 121 to 127),
  a pending request settles, or time passes. A settling chat request names the
  placeholder of the invocation it belongs to.
\<close>

datatype event =
    Typed js_string
  | Picked "js_file option"
  | SendClicked
  | KeyPressed js_string
  | UploadClicked
  | ChatSettled nat fetch_outcome
  | UploadSettled fetch_outcome
  | Elapsed nat

fun step :: "engine \<Rightarrow> event \<Rightarrow> client \<Rightarrow> client" where
  "step E (Typed s) st = st\<lparr>userInput := s\<rparr>"
| "step E (Picked f) st = st\<lparr>csvFile := f\<rparr>"
| "step E SendClicked st = fst (sendMessage_begin st)"
| "step E (KeyPressed k) st = (if k = lit ''Enter'' then fst (sendMessage_begin st) else st)"
| "step E UploadClicked st = fst (uploadFile_begin st)"
| "step E (ChatSettled n out) st = sendMessage_complete n out st"
| "step E (UploadSettled out) st = uploadFile_complete E out st"
| "step E (Elapsed d) st = elapse d st"

fun run :: "engine \<Rightarrow> event list \<Rightarrow> client \<Rightarrow> client" where
  "run E [] st = st"
| "run E (ev # evs) st = run E evs (step E ev st)"

text \<open>Lines 9 and 130: the handler itself, on the page as it was loaded.\<close>

definition greeting_text :: js_string where
  "greeting_text =
     lit ''Hello! I'' @ [0x27] @ lit ''m your AI Chatbot. You can upload a file or ask me to generate a dashboard template or summarize a data file.''"

definition on_load :: "client \<Rightarrow> client" where
  "on_load st = settle (addMessage (Str greeting_text) (lit ''bot'') (st\<lparr>lastUploadedFileName := Json JNull\<rparr>))"

text \<open>
  Element identities are fresh: every child of the chat box was created before the next
  identity to be handed out.
\<close>

definition fresh_ids :: "client \<Rightarrow> bool" where
  "fresh_ids st \<longleftrightarrow> (\<forall>e \<in> set (chatBox st). nid e < nextNode st)"

text \<open>The element that \<^verbatim>\<open>addMessage\<close> builds: its identity, the sender it was built
  for and its text.\<close>

definition message_div :: "nat \<Rightarrow> js_string \<Rightarrow> js_string \<Rightarrow> element" where
  "message_div n sender t =
     \<lparr>nid = n, classList = [lit ''message'', sender @ lit ''-message''], textContent = t\<rparr>"


subsection \<open>Concrete pages and responses\<close>

text \<open>
  A page with an empty chat box, before the script has run, and the same page once the
  handler has run; then with some text typed into the input.
\<close>

definition blank_page :: client where
  "blank_page =
     \<lparr>chatBox = [], userInput = [], csvFile = None, statusText = [],
      statusClass = lit ''status-message'', lastUploadedFileName = Undefined, nextNode = 0,
      now = 0, timers = [], requests = [], console = []\<rparr>"

definition loaded_page :: client where
  "loaded_page = on_load blank_page"

definition typed_hi :: client where
  "typed_hi = loaded_page\<lparr>userInput := lit ''  hi ''\<rparr>"

text \<open>Responses of the chat endpoint: a reply, two failures of the server, and a
  success whose body is not JSON.\<close>

definition reply_hi :: response where
  "reply_hi = \<lparr>status = 200, json_body = Inr (JObj [(lit ''response'', JStr (lit ''hi''))])\<rparr>"

definition error_server :: response where
  "error_server =
     \<lparr>status = 500, json_body = Inr (JObj [(lit ''response'', JStr (lit ''server error''))])\<rparr>"

definition error_null :: response where
  "error_null = \<lparr>status = 500, json_body = Inr JNull\<rparr>"

definition ok_garbled :: response where
  "ok_garbled = \<lparr>status = 200, json_body = Inl (BodyFailed (lit ''Unexpected token''))\<rparr>"

text \<open>
  The settled upload requests that get past lines 104 and 110: the response has a
  success status and its body parses. Line 112 is reached by such a request only. Not
  every such request is handled to the end of the \<^verbatim>\<open>try\<close> block: see
  \<open>uploadFile_try\<close>.
\<close>

fun ok_and_parsed :: "fetch_outcome \<Rightarrow> bool" where
  "ok_and_parsed (Rejected e) = False"
| "ok_and_parsed (Responded r) = (ok r \<and> (case json_body r of Inl e \<Rightarrow> False | Inr d \<Rightarrow> True))"

fun ok_parsed_upload :: "event \<Rightarrow> bool" where
  "ok_parsed_upload (UploadSettled out) = ok_and_parsed out"
| "ok_parsed_upload ev = False"

text \<open>An engine with the message texts of V8, a page with a file picked, and a success
  response of the upload endpoint.\<close>

definition demo_engine :: engine where
  "demo_engine =
     \<lparr>nullPropertyText = (\<lambda>p. lit ''Cannot read properties of null (reading '' @ [0x27] @ p @ [0x27] @ lit '')''),
      notPrimitiveText = lit ''Cannot convert object to primitive value''\<rparr>"

definition picked_csv :: client where
  "picked_csv = loaded_page\<lparr>csvFile := Some \<lparr>file_name = lit ''a.csv'', file_bytes = []\<rparr>\<rparr>"

definition upload_ok :: response where
  "upload_ok =
     \<lparr>status = 200,
      json_body = Inr (JObj [(lit ''filename'', JStr (lit ''a.csv'')), (lit ''message'', JStr (lit ''ok''))])\<rparr>"

text \<open>
  The page after a successful upload. Then a run of that page in which no upload settles
  with a success status and a parsed body: a chat request that fails (its placeholder is
  element 3), an upload answered with status 500, an upload whose request fails, and a
  click on the upload button with no file picked.
\<close>

definition remembered_a :: client where
  "remembered_a = uploadFile demo_engine (Responded upload_ok) picked_csv"

definition quiet_run :: "event list" where
  "quiet_run =
     [Typed (lit ''  hi ''), SendClicked, ChatSettled 3 (Rejected (FetchFailed [])),
      UploadClicked, Elapsed 6000, UploadSettled (Responded \<lparr>status = 500, json_body = Inr JNull\<rparr>),
      UploadClicked, UploadSettled (Rejected (FetchFailed [])),
      Picked None, UploadClicked]"

text \<open>
  Three more success responses of the upload endpoint: one whose body has no
  \<^verbatim>\<open>filename\<close>, one whose \<^verbatim>\<open>filename\<close> is an object that cannot be converted
  to a string, and one whose \<^verbatim>\<open>message\<close> is such an object. Then the page after the
  first of them has followed the successful upload, with some text typed into the input.
\<close>

definition upload_no_name :: response where
  "upload_no_name = \<lparr>status = 200, json_body = Inr (JObj [(lit ''message'', JStr (lit ''ok''))])\<rparr>"

definition upload_odd_name :: response where
  "upload_odd_name =
     \<lparr>status = 200,
      json_body = Inr (JObj [(lit ''message'', JStr (lit ''ok'')),
                             (lit ''filename'', JObj [(lit ''toString'', JNum False (lit ''1''))])])\<rparr>"

definition upload_odd_message :: response where
  "upload_odd_message =
     \<lparr>status = 200,
      json_body = Inr (JObj [(lit ''message'', JObj [(lit ''toString'', JNum False (lit ''1''))]),
                             (lit ''filename'', JStr (lit ''b.csv''))])\<rparr>"

definition forgotten :: client where
  "forgotten = run demo_engine [UploadClicked, UploadSettled (Responded upload_no_name)] remembered_a"

definition forgotten_hi :: client where
  "forgotten_hi = step demo_engine (Typed (lit ''  hi '')) forgotten"

section \<open>Properties\<close>

subsection \<open>Elements and the chat box\<close>

lemma sender_class_distinct: "sender @ lit ''-message'' \<noteq> lit ''message''"
proof
  assume "sender @ lit ''-message'' = lit ''message''"
  then have "length (sender @ lit ''-message'') = length (lit ''message'')" by simp
  then show False by (simp add: lit_def)
qed

lemma lit_bot_message: "lit ''bot-message'' = lit ''bot'' @ lit ''-message''"
  by (simp add: lit_def)


lemma nid_message_div [simp]: "nid (message_div k sender t) = k"
  by (simp add: message_div_def)

lemma textContent_message_div [simp]: "textContent (message_div k sender t) = t"
  by (simp add: message_div_def)


lemma addMessage_Done:
  "text_of v = Inr t \<Longrightarrow>
   addMessage v sender st =
     Done (st\<lparr>nextNode := Suc (nextNode st),
              chatBox := chatBox st @ [message_div (nextNode st) sender t]\<rparr>)"
  by (simp add: addMessage_def createElement_def message_div_def sender_class_distinct)

lemma addMessage_Threw:
  "text_of v = Inl e \<Longrightarrow> addMessage v sender st = Threw e (st\<lparr>nextNode := Suc (nextNode st)\<rparr>)"
  by (simp add: addMessage_def createElement_def)

lemma addMessage_eq:
  "addMessage v sender st =
     (case text_of v of
        Inl e \<Rightarrow> Threw e (st\<lparr>nextNode := Suc (nextNode st)\<rparr>)
      | Inr t \<Rightarrow> Done (st\<lparr>nextNode := Suc (nextNode st),
                          chatBox := chatBox st @ [message_div (nextNode st) sender t]\<rparr>))"
  by (simp add: addMessage_Done addMessage_Threw split: sum.splits)

lemma removeChild_append: "removeChild (xs @ ys) n = removeChild xs n @ removeChild ys n"
  by (simp add: removeChild_def)

lemma removeChild_idem: "removeChild (removeChild xs n) n = removeChild xs n"
  by (simp add: removeChild_def)

lemma removeChild_fresh: "\<forall>e \<in> set xs. nid e \<noteq> n \<Longrightarrow> removeChild xs n = xs"
  by (simp add: removeChild_def filter_id_conv)

lemma not_contains_removeChild: "\<not> contains (removeChild xs n) n"
  by (auto simp: contains_def removeChild_def)

text \<open>Whether or not the guard of lines 61 and 77 holds, the children afterwards are
  those that are not the placeholder.\<close>

lemma remove_loading_eq: "remove_loading n st = st\<lparr>chatBox := removeChild (chatBox st) n\<rparr>"
proof (cases "contains (chatBox st) n")
  case True
  then show ?thesis by (simp add: remove_loading_def)
next
  case False
  then have "removeChild (chatBox st) n = chatBox st"
    by (auto simp: contains_def removeChild_def filter_id_conv)
  with False show ?thesis by (simp add: remove_loading_def)
qed

subsection \<open>The two halves of \<^verbatim>\<open>sendMessage\<close>\<close>

lemma sendMessage_catch_eq:
  "sendMessage_catch n err st =
     st\<lparr>chatBox := removeChild (chatBox st) n @
                     [message_div (nextNode st) (lit ''bot'') connect_failure_text],
        console := console st @ [ConsoleError (lit ''Network or parsing error:'') [ArgErr err]],
        nextNode := Suc (nextNode st)\<rparr>"
  by (simp add: sendMessage_catch_def remove_loading_eq console_error_def addMessage_Done)

lemma sendMessage_begin_empty: "trim (userInput st) = [] \<Longrightarrow> sendMessage_begin st = (st, None)"
  by (simp add: sendMessage_begin_def)

lemma sendMessage_begin_send:
  "trim (userInput st) \<noteq> [] \<Longrightarrow>
   sendMessage_begin st =
     (st\<lparr>nextNode := Suc (Suc (nextNode st)),
         chatBox := chatBox st @ [message_div (nextNode st) (lit ''user'') (trim (userInput st)),
                                 message_div (Suc (nextNode st)) (lit ''bot'') typing_text],
         userInput := [],
         requests := requests st @ [chat_request (trim (userInput st)) (lastUploadedFileName st)]\<rparr>,
      Some (Suc (nextNode st)))"
  by (simp add: sendMessage_begin_def addMessage_Done createElement_def fetch_def message_div_def
      Let_def lit_bot_message sender_class_distinct)

lemma sendMessage_send:
  assumes "trim (userInput st) \<noteq> []"
  shows "sendMessage out st =
           sendMessage_complete (Suc (nextNode st)) out (fst (sendMessage_begin st))"
  by (simp add: sendMessage_def sendMessage_begin_send [OF assms])

text \<open>With fresh identities, removing the placeholder from the chat box that the first
  half left gives the old chat box and the user's message.\<close>

lemma begin_chatBox_removed:
  assumes "fresh_ids st" and "trim (userInput st) \<noteq> []"
  shows "removeChild (chatBox (fst (sendMessage_begin st))) (Suc (nextNode st)) =
           chatBox st @ [message_div (nextNode st) (lit ''user'') (trim (userInput st))]"
proof -
  from assms(1) have "\<forall>e \<in> set (chatBox st). nid e \<noteq> Suc (nextNode st)"
    by (auto simp: fresh_ids_def)
  then have "removeChild (chatBox st) (Suc (nextNode st)) = chatBox st"
    by (rule removeChild_fresh)
  then show ?thesis
    by (simp add: sendMessage_begin_send [OF assms(2)] removeChild_append removeChild_def)
qed

text \<open>Every path through the second half removes the placeholder and then appends one
  message of the bot.\<close>

lemma sendMessage_complete_chatBox:
  "\<exists>k t. nextNode st \<le> k \<and>
     chatBox (sendMessage_complete n out st) =
       removeChild (chatBox st) n @ [message_div k (lit ''bot'') t]"
  by (auto simp: sendMessage_complete_def sendMessage_catch_eq remove_loading_eq console_error_def
      addMessage_eq removeChild_idem Let_def split: fetch_outcome.splits sum.splits
      intro: exI [of _ "Suc (nextNode st)"])

lemma sendMessage_complete_frame:
  "lastUploadedFileName (sendMessage_complete n out st) = lastUploadedFileName st"
  "requests (sendMessage_complete n out st) = requests st"
  by (auto simp: sendMessage_complete_def sendMessage_catch_eq remove_loading_eq console_error_def
      addMessage_eq removeChild_idem Let_def split: fetch_outcome.splits sum.splits)

lemma fresh_ids_loaded_page: "fresh_ids loaded_page"
  by (simp add: loaded_page_def on_load_def blank_page_def addMessage_eq fresh_ids_def)

lemma fresh_ids_typed_hi: "fresh_ids typed_hi"
  using fresh_ids_loaded_page by (simp add: typed_hi_def fresh_ids_def)

lemma trim_typed_hi: "trim (userInput typed_hi) = lit ''hi''"
  by (simp add: typed_hi_def trim_def lit_def is_space_def)

lemma lit_hi_nonempty: "lit ''hi'' \<noteq> []"
  by (simp add: lit_def)

lemma begin_contains:
  assumes "trim (userInput st) \<noteq> []"
  shows "contains (chatBox (fst (sendMessage_begin st))) (Suc (nextNode st))"
    and "last (chatBox (fst (sendMessage_begin st))) =
           message_div (Suc (nextNode st)) (lit ''bot'') typing_text"
    and "snd (sendMessage_begin st) = Some (Suc (nextNode st))"
    and "nextNode (fst (sendMessage_begin st)) = Suc (Suc (nextNode st))"
  by (simp_all add: sendMessage_begin_send [OF assms] contains_def)

lemma nextNode_typed_hi: "nextNode typed_hi = Suc 0"
  by (simp add: typed_hi_def loaded_page_def on_load_def blank_page_def addMessage_eq)

lemma trim_typed_hi_nonempty: "trim (userInput typed_hi) \<noteq> []"
  by (simp add: trim_typed_hi lit_hi_nonempty)

lemmas complete_simps = sendMessage_complete_def sendMessage_catch_eq remove_loading_eq console_error_def
      addMessage_eq removeChild_idem Let_def

lemma chat_reply_chatBox:
  assumes "ok r" and "json_body r = Inr (JObj fs)"
    and "map_of fs (lit ''response'') = Some (JStr reply)"
  shows "chatBox (sendMessage_complete n (Responded r) st) =
           removeChild (chatBox st) n @ [message_div (nextNode st) (lit ''bot'') reply]"
  using assms by (simp add: complete_simps)

lemma ok_reply_hi: "ok reply_hi"
  by (simp add: ok_def reply_hi_def)

lemma ok_ok_garbled: "ok ok_garbled"
  by (simp add: ok_def ok_garbled_def)

lemma not_ok_error_null: "\<not> ok error_null"
  by (simp add: ok_def error_null_def)

lemma not_ok_error_server: "\<not> ok error_server"
  by (simp add: ok_def error_server_def)

lemma chat_error_with_text:
  assumes "\<not> ok r" and "json_body r = Inr (JObj fs)"
    and "map_of fs (lit ''response'') = Some (JStr s)" and "s \<noteq> []"
  shows "chatBox (sendMessage_complete n (Responded r) st) =
           removeChild (chatBox st) n @ [message_div (nextNode st) (lit ''bot'') (lit ''Bot Error: '' @ s)]"
  using assms by (simp add: complete_simps)

lemma chat_error_unparseable:
  assumes "\<not> ok r" and "json_body r = Inl e"
  shows "chatBox (sendMessage_complete n (Responded r) st) =
           removeChild (chatBox st) n @
           [message_div (nextNode st) (lit ''bot'') (lit ''Bot Error: '' @ http_error_text r)]"
  using assms by (simp add: complete_simps)

lemma chat_error_without_field:
  assumes "\<not> ok r" and "json_body r = Inr d" and "d \<noteq> JNull"
    and "get_prop d (lit ''response'') = Inr Undefined"
  shows "chatBox (sendMessage_complete n (Responded r) st) =
           removeChild (chatBox st) n @
           [message_div (nextNode st) (lit ''bot'') (lit ''Bot Error: '' @ http_error_text r)]"
  using assms by (simp add: complete_simps)

lemma chat_error_null_body:
  assumes "\<not> ok r" and "json_body r = Inr JNull"
  shows "chatBox (sendMessage_complete n (Responded r) st) =
           removeChild (chatBox st) n @
           [message_div (nextNode st) (lit ''bot'') connect_failure_text]"
  using assms by (simp add: complete_simps)

lemma http_error_text_500: "http_error_text error_null = lit ''HTTP error! status: 500''"
  by (simp add: http_error_text_def error_null_def decimal.simps lit_def)

lemma setUploadStatus_Str:
  "setUploadStatus (Str s) type st =
     Done (st\<lparr>statusText := s, statusClass := lit ''status-message '' @ type,
             timers := timers st @ [now st + status_delay]\<rparr>)"
  by (simp add: setUploadStatus_def)

lemma uploadFile_catch_eq:
  "uploadFile_catch E err st =
     st\<lparr>statusText := lit ''Upload failed: '' @ error_message E err,
        statusClass := lit ''status-message '' @ lit ''error'',
        timers := timers st @ [now st + status_delay],
        console := console st @ [ConsoleError (lit ''Upload error:'') [ArgErr err]]\<rparr>"
  by (simp add: uploadFile_catch_def setUploadStatus_Str console_error_def)

lemma uploadFile_begin_none:
  "csvFile st = None \<Longrightarrow>
   uploadFile_begin st =
     (st\<lparr>statusText := lit ''Please select a file first.'',
         statusClass := lit ''status-message '' @ lit ''error'',
         timers := timers st @ [now st + status_delay]\<rparr>, False)"
  by (simp add: uploadFile_begin_def setUploadStatus_Str)

lemma uploadFile_begin_some:
  "csvFile st = Some f \<Longrightarrow>
   uploadFile_begin st =
     (st\<lparr>statusText := lit ''Uploading...'',
         statusClass := lit ''status-message '' @ lit ''info'',
         timers := timers st @ [now st + status_delay],
         requests := requests st @ [upload_request f]\<rparr>, True)"
  by (simp add: uploadFile_begin_def setUploadStatus_Str fetch_def)

lemmas upload_simps = uploadFile_complete_def uploadFile_catch_eq setUploadStatus_def
  addMessage_eq console_log_def Let_def

lemma upload_success_state:
  assumes "ok r" and "json_body r = Inr (JObj fs)"
    and "map_of fs (lit ''filename'') = Some (JStr fn)"
    and "map_of fs (lit ''message'') = Some (JStr m)"
  shows "uploadFile_complete E (Responded r) st =
     st\<lparr>statusText := m, statusClass := lit ''status-message '' @ lit ''success'',
        timers := timers st @ [now st + status_delay],
        lastUploadedFileName := Str fn,
        nextNode := Suc (nextNode st),
        chatBox := chatBox st @ [message_div (nextNode st) (lit ''bot'') (uploaded_text fn)],
        console := console st @ [ConsoleLog (lit ''File uploaded:'') [ArgVal (Str fn)]]\<rparr>"
  using assms by (simp add: upload_simps)

lemma status_class_success: "lit ''status-message '' @ lit ''success'' = lit ''status-message success''"
  by (simp add: lit_def)

lemma status_class_error: "lit ''status-message '' @ lit ''error'' = lit ''status-message error''"
  by (simp add: lit_def)

lemma sublist_uploaded_text: "sublist fn (uploaded_text fn)"
  unfolding uploaded_text_def sublist_def by (metis append.assoc)

lemma ok_upload_ok: "ok upload_ok"
  by (simp add: ok_def upload_ok_def)

lemma fold_clear_status_remembered:
  "lastUploadedFileName (fold (\<lambda>_. clear_status) ks st) = lastUploadedFileName st"
  by (induction ks arbitrary: st) (simp_all add: clear_status_def)

lemma elapse_remembered: "lastUploadedFileName (elapse d st) = lastUploadedFileName st"
  by (simp add: elapse_def Let_def fold_clear_status_remembered)

lemma sendMessage_begin_remembered:
  "lastUploadedFileName (fst (sendMessage_begin st)) = lastUploadedFileName st"
  by (cases "trim (userInput st) = []")
    (simp_all add: sendMessage_begin_empty sendMessage_begin_send)

lemma uploadFile_begin_remembered:
  "lastUploadedFileName (fst (uploadFile_begin st)) = lastUploadedFileName st"
  by (cases "csvFile st") (simp_all add: uploadFile_begin_none uploadFile_begin_some)

lemma uploadFile_complete_remembered:
  "\<not> ok_and_parsed out \<Longrightarrow>
   lastUploadedFileName (uploadFile_complete E out st) = lastUploadedFileName st"
  by (auto simp: upload_simps split: fetch_outcome.splits sum.splits)

lemma uploadFile_complete_written:
  "lastUploadedFileName (uploadFile_complete E out st) \<noteq> lastUploadedFileName st \<Longrightarrow>
   \<exists>r d. out = Responded r \<and> ok r \<and> json_body r = Inr d \<and>
         get_prop d (lit ''filename'') = Inr (lastUploadedFileName (uploadFile_complete E out st))"
  by (auto simp: upload_simps split: fetch_outcome.splits sum.splits if_splits)

lemma step_remembered:
  "\<not> ok_parsed_upload ev \<Longrightarrow> lastUploadedFileName (step E ev st) = lastUploadedFileName st"
  by (cases ev)
    (simp_all add: sendMessage_begin_remembered uploadFile_begin_remembered
      sendMessage_complete_frame uploadFile_complete_remembered elapse_remembered)

lemma run_remembered:
  "\<forall>ev \<in> set evs. \<not> ok_parsed_upload ev \<Longrightarrow>
   lastUploadedFileName (run E evs st) = lastUploadedFileName st"
  by (induction evs arbitrary: st) (simp_all add: step_remembered)

lemma sendMessage_remembered:
  "lastUploadedFileName (sendMessage out st) = lastUploadedFileName st"
  using sendMessage_begin_remembered [of st]
  by (auto simp: sendMessage_def sendMessage_complete_frame split: prod.splits option.splits)

lemma uploadFile_remembered:
  "csvFile st = None \<or> \<not> ok_and_parsed out \<Longrightarrow>
   lastUploadedFileName (uploadFile E out st) = lastUploadedFileName st"
  using uploadFile_begin_remembered [of st]
  by (auto simp: uploadFile_def uploadFile_begin_none uploadFile_complete_remembered
      split: prod.splits bool.splits)

lemma upload_ok_state:
  "uploadFile_complete E (Responded upload_ok) st =
     st\<lparr>statusText := lit ''ok'', statusClass := lit ''status-message '' @ lit ''success'',
        timers := timers st @ [now st + status_delay],
        lastUploadedFileName := Str (lit ''a.csv''),
        nextNode := Suc (nextNode st),
        chatBox := chatBox st @ [message_div (nextNode st) (lit ''bot'') (uploaded_text (lit ''a.csv''))],
        console := console st @ [ConsoleLog (lit ''File uploaded:'') [ArgVal (Str (lit ''a.csv''))]]\<rparr>"
proof (rule upload_success_state [OF ok_upload_ok])
  show "json_body upload_ok =
     Inr (JObj [(lit ''filename'', JStr (lit ''a.csv'')), (lit ''message'', JStr (lit ''ok''))])"
    by (simp add: upload_ok_def)
  show "map_of [(lit ''filename'', JStr (lit ''a.csv'')), (lit ''message'', JStr (lit ''ok''))]
          (lit ''filename'') = Some (JStr (lit ''a.csv''))"
    by simp
  show "map_of [(lit ''filename'', JStr (lit ''a.csv'')), (lit ''message'', JStr (lit ''ok''))]
          (lit ''message'') = Some (JStr (lit ''ok''))"
    by (simp add: lit_def)
qed

lemma remembered_a_value: "lastUploadedFileName remembered_a = Str (lit ''a.csv'')"
  by (simp add: remembered_a_def uploadFile_def picked_csv_def uploadFile_begin_some
      upload_ok_state)

lemma fold_clear_status_cleared:
  "statusText st = [] \<Longrightarrow> statusText (fold (\<lambda>_. clear_status) ks st) = []"
  by (induction ks arbitrary: st) (simp_all add: clear_status_def)

lemma fold_clear_status_nonempty:
  "ks \<noteq> [] \<Longrightarrow> statusText (fold (\<lambda>_. clear_status) ks st) = []"
  by (cases ks) (simp_all add: fold_clear_status_cleared clear_status_def)

lemma elapse_clears_when_due:
  "\<exists>k \<in> set (timers st). k \<le> now st + d \<Longrightarrow> statusText (elapse d st) = []"
proof -
  assume "\<exists>k \<in> set (timers st). k \<le> now st + d"
  then have "filter (\<lambda>k. k \<le> now st + d) (timers st) \<noteq> []"
    by (simp add: filter_empty_conv)
  then show ?thesis
    by (simp add: elapse_def Let_def fold_clear_status_nonempty)
qed

lemma elapse_timers: "timers (elapse d st) = filter (\<lambda>k. now st + d < k) (timers st)"
  by (simp add: elapse_def Let_def)

lemma elapse_now: "now (elapse d st) = now st + d"
  by (simp add: elapse_def Let_def)

lemma elapse_keeps_when_not_due:
  "\<forall>k \<in> set (timers st). now st + d < k \<Longrightarrow> statusText (elapse d st) = statusText st"
proof -
  assume "\<forall>k \<in> set (timers st). now st + d < k"
  then have "filter (\<lambda>k. k \<le> now st + d) (timers st) = []"
    by (auto simp: filter_empty_conv)
  then show ?thesis
    by (simp add: elapse_def Let_def)
qed

text \<open>What does hold of the status display: a status is gone once its delay has passed.\<close>

lemma status_cleared_after_delay:
  assumes "setUploadStatus v type st = Done st'" and "status_delay \<le> d"
  shows "statusText (elapse d st') = []"
proof (rule elapse_clears_when_due)
  from assms(1) have "now st' = now st" and "now st + status_delay \<in> set (timers st')"
    by (auto simp: setUploadStatus_def split: sum.splits)
  with assms(2) show "\<exists>k \<in> set (timers st'). k \<le> now st' + d"
    by (intro bexI [of _ "now st + status_delay"]) simp_all
qed

text \<open>What does not hold: a status set \<open>d1\<close> after an earlier one is cleared when the
  earlier one's timer comes due, which is only \<open>d2 = status_delay - d1\<close> after it was
  set.\<close>

lemma stale_timer_clears_newer_status:
  assumes "setUploadStatus a ta st = Done s1"
    and "setUploadStatus b tb (elapse d1 s1) = Done s2"
    and "d1 + d2 = status_delay" and "0 < d2"
  shows "statusText (elapse d2 s2) = []"
proof (rule elapse_clears_when_due)
  from assms(1) have s1: "now s1 = now st" "now st + status_delay \<in> set (timers s1)"
    by (auto simp: setUploadStatus_def split: sum.splits)
  from assms(2) have s2: "now s2 = now (elapse d1 s1)"
    "set (timers (elapse d1 s1)) \<subseteq> set (timers s2)"
    by (auto simp: setUploadStatus_def split: sum.splits)
  from assms(3,4) have "now s1 + d1 < now st + status_delay"
    by (simp add: s1(1))
  with s1(2) have "now st + status_delay \<in> set (timers (elapse d1 s1))"
    by (simp add: elapse_timers)
  with s2(2) have "now st + status_delay \<in> set (timers s2)"
    by blast
  moreover from assms(3) have "now st + status_delay \<le> now s2 + d2"
    by (simp add: s2(1) elapse_now s1(1))
  ultimately show "\<exists>k \<in> set (timers s2). k \<le> now s2 + d2"
    by blast
qed

text \<open>Freshness of the element identities holds once the handler has run and is kept by
  every event.\<close>

lemma fresh_ids_removeChild:
  "\<forall>e \<in> set box. nid e < k \<Longrightarrow> \<forall>e \<in> set (removeChild box n). nid e < k"
  by (simp add: removeChild_def)

lemma fresh_ids_sendMessage_begin: "fresh_ids st \<Longrightarrow> fresh_ids (fst (sendMessage_begin st))"
  by (cases "trim (userInput st) = []")
    (auto simp: sendMessage_begin_empty sendMessage_begin_send fresh_ids_def less_Suc_eq)

lemma fresh_ids_sendMessage_complete:
  "fresh_ids st \<Longrightarrow> fresh_ids (sendMessage_complete n out st)"
  by (auto simp: fresh_ids_def complete_simps removeChild_def less_Suc_eq
      split: fetch_outcome.splits sum.splits)

lemma fresh_ids_uploadFile_begin: "fresh_ids st \<Longrightarrow> fresh_ids (fst (uploadFile_begin st))"
  by (cases "csvFile st") (auto simp: uploadFile_begin_none uploadFile_begin_some fresh_ids_def)

lemma fresh_ids_uploadFile_complete:
  "fresh_ids st \<Longrightarrow> fresh_ids (uploadFile_complete E out st)"
  by (auto simp: fresh_ids_def upload_simps less_Suc_eq split: fetch_outcome.splits sum.splits)

lemma fold_clear_status_dom:
  "chatBox (fold (\<lambda>_. clear_status) ks st) = chatBox st \<and>
   nextNode (fold (\<lambda>_. clear_status) ks st) = nextNode st"
  by (induction ks arbitrary: st) (simp_all add: clear_status_def)

lemma fresh_ids_elapse: "fresh_ids st \<Longrightarrow> fresh_ids (elapse d st)"
  by (simp add: fresh_ids_def elapse_def Let_def fold_clear_status_dom)

lemma fresh_ids_step: "fresh_ids st \<Longrightarrow> fresh_ids (step E ev st)"
proof (cases ev)
  case (Typed s)
  assume "fresh_ids st"
  with Typed show ?thesis by (simp add: fresh_ids_def)
next
  case (Picked f)
  assume "fresh_ids st"
  with Picked show ?thesis by (simp add: fresh_ids_def)
qed (simp_all add: fresh_ids_sendMessage_begin fresh_ids_sendMessage_complete
      fresh_ids_uploadFile_begin fresh_ids_uploadFile_complete fresh_ids_elapse)

lemma fresh_ids_run: "fresh_ids st \<Longrightarrow> fresh_ids (run E evs st)"
  by (induction evs arbitrary: st) (simp_all add: fresh_ids_step)

lemma fresh_ids_on_load: "fresh_ids st \<Longrightarrow> fresh_ids (on_load st)"
  by (auto simp: fresh_ids_def on_load_def addMessage_eq less_Suc_eq)



subsection \<open>The \<^verbatim>\<open>try\<close> block of \<^verbatim>\<open>uploadFile\<close>\<close>

lemma uploadFile_complete_try:
  "uploadFile_complete E out st =
     (case uploadFile_try out st of
        Done s \<Rightarrow> s
      | Threw e s \<Rightarrow> uploadFile_catch E e s)"
  by (simp add: uploadFile_complete_def uploadFile_try_def Let_def
      split: fetch_outcome.splits sum.splits outcome.splits)

lemma uploadFile_try_Done_complete:
  "uploadFile_try out st = Done s \<Longrightarrow> uploadFile_complete E out st = s"
  by (simp add: uploadFile_complete_try)

lemma uploadFile_try_Done_written:
  "uploadFile_try out st = Done s \<Longrightarrow>
   \<exists>r d. out = Responded r \<and> ok r \<and> json_body r = Inr d \<and>
         get_prop d (lit ''filename'') = Inr (lastUploadedFileName s)"
  by (auto simp: uploadFile_try_def setUploadStatus_def addMessage_eq console_log_def Let_def
      split: fetch_outcome.splits sum.splits if_splits)

lemma uploadFile_try_strings:
  assumes "ok r" and "json_body r = Inr (JObj fs)"
    and "map_of fs (lit ''filename'') = Some (JStr fn)"
    and "map_of fs (lit ''message'') = Some (JStr m)"
  shows "\<exists>s. uploadFile_try (Responded r) st = Done s"
  using assms
  by (simp add: uploadFile_try_def setUploadStatus_def addMessage_eq Let_def)

lemma uploadFile_rejected_remembered:
  "lastUploadedFileName (uploadFile E (Rejected err) st) = lastUploadedFileName st"
  by (rule uploadFile_remembered) simp

lemma uploadFile_not_ok_remembered:
  "\<not> ok r \<Longrightarrow> lastUploadedFileName (uploadFile E (Responded r) st) = lastUploadedFileName st"
  by (rule uploadFile_remembered) simp

lemma uploadFile_unparsed_remembered:
  "json_body r = Inl e \<Longrightarrow>
   lastUploadedFileName (uploadFile E (Responded r) st) = lastUploadedFileName st"
  by (rule uploadFile_remembered) simp

lemma uploadFile_null_body_remembered:
  assumes "json_body r = Inr JNull"
  shows "lastUploadedFileName (uploadFile E (Responded r) st) = lastUploadedFileName st"
proof (cases "csvFile st")
  case None
  then show ?thesis by (simp add: uploadFile_remembered)
next
  case (Some f)
  with assms show ?thesis
    by (simp add: uploadFile_def uploadFile_begin_some upload_simps)
qed

lemma uploadFile_message_unshown_remembered:
  assumes "json_body r = Inr d" and "get_prop d (lit ''message'') = Inr v"
    and "text_of v = Inl e"
  shows "lastUploadedFileName (uploadFile E (Responded r) st) = lastUploadedFileName st"
proof (cases "csvFile st")
  case None
  then show ?thesis by (simp add: uploadFile_remembered)
next
  case (Some f)
  show ?thesis
  proof (cases "ok r")
    case True
    with assms Some show ?thesis
      by (simp add: uploadFile_def uploadFile_begin_some upload_simps)
  next
    case False
    then show ?thesis by (rule uploadFile_not_ok_remembered)
  qed
qed

lemma uploadFile_no_file_remembered:
  "csvFile st = None \<Longrightarrow> lastUploadedFileName (uploadFile E out st) = lastUploadedFileName st"
  by (rule uploadFile_remembered) simp

text \<open>A success response whose body has no \<^verbatim>\<open>filename\<close>: the block runs to its end
  and the remembered name is \<^verbatim>\<open>undefined\<close>.\<close>

lemma lit_filename_not_message: "lit ''filename'' \<noteq> lit ''message''"
  by (simp add: lit_def)

lemma upload_no_name_try:
  "uploadFile_try (Responded upload_no_name) st =
     Done (st\<lparr>statusText := lit ''ok'', statusClass := lit ''status-message '' @ lit ''success'',
              timers := timers st @ [now st + status_delay],
              lastUploadedFileName := Undefined,
              nextNode := Suc (nextNode st),
              chatBox := chatBox st @
                [message_div (nextNode st) (lit ''bot'') (uploaded_text (lit ''undefined''))],
              console := console st @ [ConsoleLog (lit ''File uploaded:'') [ArgVal Undefined]]\<rparr>)"
proof -
  have o: "ok upload_no_name"
    by (simp add: ok_def upload_no_name_def)
  have b: "json_body upload_no_name = Inr (JObj [(lit ''message'', JStr (lit ''ok''))])"
    by (simp add: upload_no_name_def)
  show ?thesis
    by (simp add: uploadFile_try_def o b lit_filename_not_message setUploadStatus_def
        addMessage_eq console_log_def)
qed

lemma csvFile_remembered_a:
  "csvFile remembered_a = Some \<lparr>file_name = lit ''a.csv'', file_bytes = []\<rparr>"
  by (simp add: remembered_a_def uploadFile_def picked_csv_def uploadFile_begin_some
      upload_ok_state)

lemma forgotten_eq:
  "forgotten = uploadFile_complete demo_engine (Responded upload_no_name)
                 (fst (uploadFile_begin remembered_a))"
  by (simp add: forgotten_def)

lemma forgotten_try:
  "uploadFile_try (Responded upload_no_name) (fst (uploadFile_begin remembered_a)) = Done forgotten"
  by (simp add: forgotten_eq uploadFile_complete_try upload_no_name_try)

lemma forgotten_name: "lastUploadedFileName forgotten = Undefined"
  by (simp add: forgotten_eq uploadFile_complete_try upload_no_name_try)

lemma forgotten_status:
  "statusText forgotten = lit ''ok''" "statusClass forgotten = lit ''status-message success''"
  by (simp_all add: forgotten_eq uploadFile_complete_try upload_no_name_try status_class_success)

lemma fresh_ids_uploadFile: "fresh_ids st \<Longrightarrow> fresh_ids (uploadFile E out st)"
  using fresh_ids_uploadFile_begin [of st]
  by (auto simp: uploadFile_def fresh_ids_uploadFile_complete split: prod.splits bool.splits)

lemma fresh_ids_picked_csv: "fresh_ids picked_csv"
  using fresh_ids_loaded_page by (simp add: picked_csv_def fresh_ids_def)

lemma fresh_ids_remembered_a: "fresh_ids remembered_a"
  by (simp add: remembered_a_def fresh_ids_uploadFile fresh_ids_picked_csv)

lemma fresh_ids_forgotten_hi: "fresh_ids forgotten_hi"
  unfolding forgotten_hi_def forgotten_def
  by (intro fresh_ids_step fresh_ids_run fresh_ids_remembered_a)



text \<open>
  A success response whose \<^verbatim>\<open>filename\<close> cannot be converted to a string: line 112 has
  assigned it when the template literal of line 113 throws, so the \<^verbatim>\<open>catch\<close> block
  reports a failed upload while the remembered name has been overwritten.
\<close>

lemma upload_odd_name_overwrites:
  "lastUploadedFileName (uploadFile_complete E (Responded upload_odd_name) st) =
     Json (JObj [(lit ''toString'', JNum False (lit ''1''))]) \<and>
   statusText (uploadFile_complete E (Responded upload_odd_name) st) =
     lit ''Upload failed: '' @ notPrimitiveText E \<and>
   uploadFile_try (Responded upload_odd_name) st =
     Threw NotPrimitive
       (st\<lparr>statusText := lit ''ok'', statusClass := lit ''status-message '' @ lit ''success'',
           timers := timers st @ [now st + status_delay],
           lastUploadedFileName := Json (JObj [(lit ''toString'', JNum False (lit ''1''))])\<rparr>)"
proof -
  have o: "ok upload_odd_name"
    by (simp add: ok_def upload_odd_name_def)
  have b: "json_body upload_odd_name =
      Inr (JObj [(lit ''message'', JStr (lit ''ok'')),
                 (lit ''filename'', JObj [(lit ''toString'', JNum False (lit ''1''))])])"
    by (simp add: upload_odd_name_def)
  have t: "uploadFile_try (Responded upload_odd_name) st =
     Threw NotPrimitive
       (st\<lparr>statusText := lit ''ok'', statusClass := lit ''status-message '' @ lit ''success'',
           timers := timers st @ [now st + status_delay],
           lastUploadedFileName := Json (JObj [(lit ''toString'', JNum False (lit ''1''))])\<rparr>)"
    by (simp add: uploadFile_try_def o b lit_filename_not_message setUploadStatus_def)
  then show ?thesis
    by (simp add: uploadFile_complete_try uploadFile_catch_eq)
qed

text \<open>The example of the specification: status 500 with the body
  \<^verbatim>\<open>{response: "server error"}\<close>.\<close>

lemma chat_error_server_example:
  "chatBox (sendMessage (Responded error_server) typed_hi) =
     chatBox typed_hi @ [message_div 1 (lit ''user'') (lit ''hi''),
                         message_div 3 (lit ''bot'') (lit ''Bot Error: server error'')]"
proof -
  have b: "json_body error_server = Inr (JObj [(lit ''response'', JStr (lit ''server error''))])"
    by (simp add: error_server_def)
  have m: "map_of [(lit ''response'', JStr (lit ''server error''))] (lit ''response'') =
             Some (JStr (lit ''server error''))"
    by simp
  have n: "lit ''server error'' \<noteq> []"
    by (simp add: lit_def)
  have t: "lit ''Bot Error: '' @ lit ''server error'' = lit ''Bot Error: server error''"
    by (simp add: lit_def)
  show ?thesis
    using begin_chatBox_removed [OF fresh_ids_typed_hi trim_typed_hi_nonempty]
    by (simp add: sendMessage_send [OF trim_typed_hi_nonempty]
        chat_error_with_text [OF not_ok_error_server b m n] t
        begin_contains(4) [OF trim_typed_hi_nonempty] nextNode_typed_hi trim_typed_hi
        numeral_3_eq_3)
qed

subsection \<open>Claims\<close>




text \<open>
  C6. The second half of \<^verbatim>\<open>sendMessage\<close>, run for a placeholder that was created
  earlier, ends with that placeholder absent from the transcript, however the request
  settled and whatever happened to the page in between; on every path the transcript is
  the old one without the placeholder, followed by the one message that is rendered, so
  the removal comes before the error message. For a whole invocation with a non-empty
  trimmed input: the placeholder (the last child while the request is pending, with the
  text \<^verbatim>\<open>...typing...\<close>) is absent afterwards.
\<close>

theorem C6_placeholder_removed:
  "(n < nextNode st \<longrightarrow> \<not> contains (chatBox (sendMessage_complete n out st)) n) \<and>
   (\<exists>k t. chatBox (sendMessage_complete n out st) =
            removeChild (chatBox st) n @ [message_div k (lit ''bot'') t]) \<and>
   (trim (userInput st) \<noteq> [] \<longrightarrow>
      snd (sendMessage_begin st) = Some (Suc (nextNode st)) \<and>
      last (chatBox (fst (sendMessage_begin st))) =
        message_div (Suc (nextNode st)) (lit ''bot'') typing_text \<and>
      \<not> contains (chatBox (sendMessage out st)) (Suc (nextNode st)))"
proof -
  obtain k t where k: "nextNode st \<le> k"
    and box: "chatBox (sendMessage_complete n out st) =
                removeChild (chatBox st) n @ [message_div k (lit ''bot'') t]"
    using sendMessage_complete_chatBox [of st n out] by blast
  have a: "n < nextNode st \<longrightarrow> \<not> contains (chatBox (sendMessage_complete n out st)) n"
    using k not_contains_removeChild [of "chatBox st" n]
    by (auto simp: box contains_def)
  have c: "\<not> contains (chatBox (sendMessage out st)) (Suc (nextNode st))"
    if ne: "trim (userInput st) \<noteq> []"
  proof -
    let ?st1 = "fst (sendMessage_begin st)"
    obtain k' t' where k': "nextNode ?st1 \<le> k'"
      and box': "chatBox (sendMessage_complete (Suc (nextNode st)) out ?st1) =
                removeChild (chatBox ?st1) (Suc (nextNode st)) @ [message_div k' (lit ''bot'') t']"
      using sendMessage_complete_chatBox [of ?st1 "Suc (nextNode st)" out] by blast
    from k' have "Suc (nextNode st) < k'"
      by (simp add: begin_contains(4) [OF ne])
    then show ?thesis
      using not_contains_removeChild [of "chatBox ?st1" "Suc (nextNode st)"]
      by (auto simp: sendMessage_send [OF ne] box' contains_def)
  qed
  from a box c show ?thesis
    by (auto simp: begin_contains)
qed

theorem C6_placeholder_removed_witness:
  "(0 < nextNode typed_hi \<and>
    \<not> contains (chatBox (sendMessage_complete 0 (Rejected (FetchFailed [])) typed_hi)) 0) \<and>
   trim (userInput typed_hi) \<noteq> [] \<and>
   snd (sendMessage_begin typed_hi) = Some 2 \<and>
   \<not> contains (chatBox (sendMessage (Rejected (FetchFailed [])) typed_hi)) 2"
  using trim_typed_hi_nonempty
    C6_placeholder_removed [of 0 typed_hi "Rejected (FetchFailed [])"]
  by (simp add: nextNode_typed_hi numeral_2_eq_2)

text \<open>
  C8. When \<^verbatim>\<open>fetch\<close> rejects, with whatever error, the second half of
  \<^verbatim>\<open>sendMessage\<close> removes the placeholder and appends one message of the bot whose
  text is the constant \<open>connect_failure_text\<close>. For a whole invocation the transcript
  gains the user's message and that message.
\<close>

theorem C8_transport_failure_fixed_message:
  "chatBox (sendMessage_complete n (Rejected err) st) =
     removeChild (chatBox st) n @ [message_div (nextNode st) (lit ''bot'') connect_failure_text] \<and>
   \<not> contains (removeChild (chatBox st) n) n \<and>
   (fresh_ids st \<longrightarrow> trim (userInput st) \<noteq> [] \<longrightarrow>
      chatBox (sendMessage (Rejected err) st) =
        chatBox st @ [message_div (nextNode st) (lit ''user'') (trim (userInput st)),
                      message_div (Suc (Suc (nextNode st))) (lit ''bot'') connect_failure_text])"
proof -
  have a: "chatBox (sendMessage_complete n (Rejected err) st) =
     removeChild (chatBox st) n @ [message_div (nextNode st) (lit ''bot'') connect_failure_text]"
    by (simp add: sendMessage_complete_def sendMessage_catch_eq)
  have b: "chatBox (sendMessage (Rejected err) st) =
        chatBox st @ [message_div (nextNode st) (lit ''user'') (trim (userInput st)),
                      message_div (Suc (Suc (nextNode st))) (lit ''bot'') connect_failure_text]"
    if "fresh_ids st" and ne: "trim (userInput st) \<noteq> []"
    using begin_chatBox_removed [OF that]
    by (simp add: sendMessage_send [OF ne] sendMessage_complete_def sendMessage_catch_eq
        begin_contains(4) [OF ne])
  from a b not_contains_removeChild show ?thesis by blast
qed

theorem C8_transport_failure_witness:
  "fresh_ids typed_hi \<and> trim (userInput typed_hi) \<noteq> [] \<and>
   chatBox (sendMessage (Rejected (FetchFailed (lit ''Failed to fetch''))) typed_hi) =
     chatBox typed_hi @ [message_div 1 (lit ''user'') (lit ''hi''),
                         message_div 3 (lit ''bot'') connect_failure_text]"
  using fresh_ids_typed_hi trim_typed_hi_nonempty
    C8_transport_failure_fixed_message [of 0 "FetchFailed (lit ''Failed to fetch'')" typed_hi]
  by (simp add: nextNode_typed_hi trim_typed_hi numeral_3_eq_3)

text \<open>
  C9. When the response to the chat request is a success and its body parses to an object
  whose \<^verbatim>\<open>response\<close> property is the string \<open>reply\<close>, the second half of
  \<^verbatim>\<open>sendMessage\<close> removes the placeholder and appends one message of the bot whose
  text is \<open>reply\<close>; the placeholder is absent afterwards. For a whole invocation the
  transcript gains the user's message and that one message of the bot.
\<close>

theorem C9_successful_reply_rendered:
  assumes "ok r" and "json_body r = Inr (JObj fs)"
    and "map_of fs (lit ''response'') = Some (JStr reply)"
  shows "chatBox (sendMessage_complete n (Responded r) st) =
           removeChild (chatBox st) n @ [message_div (nextNode st) (lit ''bot'') reply] \<and>
         (n < nextNode st \<longrightarrow> \<not> contains (chatBox (sendMessage_complete n (Responded r) st)) n) \<and>
         (fresh_ids st \<longrightarrow> trim (userInput st) \<noteq> [] \<longrightarrow>
            chatBox (sendMessage (Responded r) st) =
              chatBox st @ [message_div (nextNode st) (lit ''user'') (trim (userInput st)),
                            message_div (Suc (Suc (nextNode st))) (lit ''bot'') reply] \<and>
            \<not> contains (chatBox (sendMessage (Responded r) st)) (Suc (nextNode st)))"
proof -
  note box = chat_reply_chatBox [OF assms]
  have a: "\<not> contains (chatBox (sendMessage_complete n (Responded r) st)) n" if "n < nextNode st"
    using that not_contains_removeChild [of "chatBox st" n]
    by (auto simp: box contains_def)
  have b: "chatBox (sendMessage (Responded r) st) =
              chatBox st @ [message_div (nextNode st) (lit ''user'') (trim (userInput st)),
                            message_div (Suc (Suc (nextNode st))) (lit ''bot'') reply]"
    if "fresh_ids st" and ne: "trim (userInput st) \<noteq> []"
    by (simp add: sendMessage_send [OF ne] box begin_chatBox_removed [OF that]
        begin_contains(4) [OF ne])
  have c: "\<not> contains (chatBox (sendMessage (Responded r) st)) (Suc (nextNode st))"
    if fr: "fresh_ids st" and ne: "trim (userInput st) \<noteq> []"
    using fr by (auto simp: b [OF that] contains_def fresh_ids_def)
  from box a b c show ?thesis by blast
qed

theorem C9_successful_reply_witness:
  "ok reply_hi \<and> json_body reply_hi = Inr (JObj [(lit ''response'', JStr (lit ''hi''))]) \<and>
   map_of [(lit ''response'', JStr (lit ''hi''))] (lit ''response'') = Some (JStr (lit ''hi'')) \<and>
   fresh_ids typed_hi \<and> trim (userInput typed_hi) \<noteq> [] \<and>
   chatBox (sendMessage (Responded reply_hi) typed_hi) =
     chatBox typed_hi @ [message_div (nextNode typed_hi) (lit ''user'') (trim (userInput typed_hi)),
                         message_div (Suc (Suc (nextNode typed_hi))) (lit ''bot'') (lit ''hi'')] \<and>
   \<not> contains (chatBox (sendMessage (Responded reply_hi) typed_hi)) (Suc (nextNode typed_hi))"
proof -
  have b: "json_body reply_hi = Inr (JObj [(lit ''response'', JStr (lit ''hi''))])"
    by (simp add: reply_hi_def)
  have m: "map_of [(lit ''response'', JStr (lit ''hi''))] (lit ''response'') = Some (JStr (lit ''hi''))"
    by simp
  from C9_successful_reply_rendered [OF ok_reply_hi b m, of 0 typed_hi]
    ok_reply_hi b m fresh_ids_typed_hi trim_typed_hi_nonempty
  show ?thesis by blast
qed

text \<open>
  C10. When the response to the chat request is a success but \<^verbatim>\<open>response.json()\<close>
  rejects, the transcript ends up as it does when \<^verbatim>\<open>fetch\<close> itself rejects: the
  placeholder is removed and the one message appended is the constant
  \<open>connect_failure_text\<close>, not a text taken from the body and not one built from the
  status code.
\<close>

theorem C10_unparseable_success_body:
  assumes "ok r" and "json_body r = Inl e"
  shows "chatBox (sendMessage_complete n (Responded r) st) =
           removeChild (chatBox st) n @
           [message_div (nextNode st) (lit ''bot'') connect_failure_text] \<and>
         chatBox (sendMessage_complete n (Responded r) st) =
           chatBox (sendMessage_complete n (Rejected err) st) \<and>
         (n < nextNode st \<longrightarrow> \<not> contains (chatBox (sendMessage_complete n (Responded r) st)) n) \<and>
         chatBox (sendMessage (Responded r) st) = chatBox (sendMessage (Rejected err) st) \<and>
         (trim (userInput st) \<noteq> [] \<longrightarrow>
            \<not> contains (chatBox (sendMessage (Responded r) st)) (Suc (nextNode st)))"
proof -
  have box: "chatBox (sendMessage_complete n (Responded r) st') =
           removeChild (chatBox st') n @
           [message_div (nextNode st') (lit ''bot'') connect_failure_text]" for n st'
    using assms by (simp add: complete_simps)
  have rej: "chatBox (sendMessage_complete n (Rejected err) st') =
           removeChild (chatBox st') n @
           [message_div (nextNode st') (lit ''bot'') connect_failure_text]" for n st'
    by (simp add: complete_simps)
  have a: "\<not> contains (chatBox (sendMessage_complete n (Responded r) st')) n"
    if "n < nextNode st'" for n st'
    using that not_contains_removeChild [of "chatBox st'" n]
    by (auto simp: box contains_def)
  have same: "chatBox (sendMessage (Responded r) st) = chatBox (sendMessage (Rejected err) st)"
    by (cases "trim (userInput st) = []")
      (simp_all add: sendMessage_def sendMessage_begin_empty sendMessage_begin_send box rej)
  have c: "\<not> contains (chatBox (sendMessage (Responded r) st)) (Suc (nextNode st))"
    if ne: "trim (userInput st) \<noteq> []"
    by (simp add: sendMessage_send [OF ne] a begin_contains(4) [OF ne])
  from box [of n st] rej [of n st] a [of n st] same c show ?thesis by simp
qed

theorem C10_unparseable_success_witness:
  "ok ok_garbled \<and> json_body ok_garbled = Inl (BodyFailed (lit ''Unexpected token'')) \<and>
   trim (userInput typed_hi) \<noteq> [] \<and>
   chatBox (sendMessage (Responded ok_garbled) typed_hi) =
     chatBox (sendMessage (Rejected (FetchFailed (lit ''Failed to fetch''))) typed_hi) \<and>
   \<not> contains (chatBox (sendMessage (Responded ok_garbled) typed_hi)) (Suc (nextNode typed_hi))"
proof -
  have b: "json_body ok_garbled = Inl (BodyFailed (lit ''Unexpected token''))"
    by (simp add: ok_garbled_def)
  from C10_unparseable_success_body
         [OF ok_ok_garbled b, of 0 typed_hi "FetchFailed (lit ''Failed to fetch'')"]
    ok_ok_garbled b trim_typed_hi_nonempty
  show ?thesis by blast
qed

text \<open>
  C5. The claim is that every non-success response is rendered as one message of the bot
  that starts with the error mark and carries the body's \<^verbatim>\<open>response\<close> text or else
  the text built from the status code. The lemmas above show this for a body that does
  not parse, for a body other than \<^verbatim>\<open>null\<close> without the property, and for a body
  whose property is a non-empty string. It is not so for the body \<^verbatim>\<open>null\<close>: reading
  \<^verbatim>\<open>errorData.response\<close> at line 67 throws, the \<^verbatim>\<open>catch\<close> block of line 75
  runs, and the message shown is the connection failure text, without the error mark and
  without the status code. Evaluated here on a response with status 500 and body
  \<^verbatim>\<open>null\<close>.
\<close>

theorem C5_null_error_body_shown_as_connect_failure:
  "\<not> ok error_null \<and> json_body error_null = Inr JNull \<and>
   chatBox (sendMessage (Responded error_null) typed_hi) =
     chatBox typed_hi @ [message_div 1 (lit ''user'') (lit ''hi''),
                         message_div 3 (lit ''bot'') connect_failure_text] \<and>
   \<not> prefix (lit ''Bot Error: '') connect_failure_text \<and>
   \<not> sublist (http_error_text error_null) connect_failure_text"
proof -
  have b: "json_body error_null = Inr JNull"
    by (simp add: error_null_def)
  have box: "chatBox (sendMessage (Responded error_null) typed_hi) =
     chatBox typed_hi @ [message_div 1 (lit ''user'') (lit ''hi''),
                         message_div 3 (lit ''bot'') connect_failure_text]"
    using begin_chatBox_removed [OF fresh_ids_typed_hi trim_typed_hi_nonempty]
    by (simp add: sendMessage_send [OF trim_typed_hi_nonempty]
        chat_error_null_body [OF not_ok_error_null b]
        begin_contains(4) [OF trim_typed_hi_nonempty] nextNode_typed_hi trim_typed_hi numeral_3_eq_3)
  have p: "\<not> prefix (lit ''Bot Error: '') connect_failure_text"
    by (simp add: connect_failure_text_def lit_def)
  have s: "\<not> sublist (http_error_text error_null) connect_failure_text"
    unfolding http_error_text_500 connect_failure_text_def lit_def by code_simp
  from not_ok_error_null b box p s show ?thesis by blast
qed

text \<open>
  C2. With a file selected, when the upload request gets a success response whose body
  parses to an object with the strings \<open>fn\<close> and \<open>m\<close> as its \<^verbatim>\<open>filename\<close> and
  \<^verbatim>\<open>message\<close>, \<^verbatim>\<open>uploadFile\<close> leaves the remembered file name equal to \<open>fn\<close>,
  the status area showing \<open>m\<close> with the class of a success, and the transcript extended
  by exactly one message of the bot, whose text contains \<open>fn\<close>.
\<close>

theorem C2_successful_upload:
  assumes "csvFile st = Some f" and "ok r" and "json_body r = Inr (JObj fs)"
    and "map_of fs (lit ''filename'') = Some (JStr fn)"
    and "map_of fs (lit ''message'') = Some (JStr m)"
  shows "lastUploadedFileName (uploadFile E (Responded r) st) = Str fn \<and>
         statusText (uploadFile E (Responded r) st) = m \<and>
         statusClass (uploadFile E (Responded r) st) = lit ''status-message success'' \<and>
         chatBox (uploadFile E (Responded r) st) =
           chatBox st @ [message_div (nextNode st) (lit ''bot'') (uploaded_text fn)] \<and>
         sublist fn (uploaded_text fn)"
  using sublist_uploaded_text [of fn]
  by (simp add: uploadFile_def uploadFile_begin_some [OF assms(1)]
      upload_success_state [OF assms(2-5)] status_class_success)

theorem C2_successful_upload_witness:
  "csvFile picked_csv = Some \<lparr>file_name = lit ''a.csv'', file_bytes = []\<rparr> \<and> ok upload_ok \<and>
   json_body upload_ok =
     Inr (JObj [(lit ''filename'', JStr (lit ''a.csv'')), (lit ''message'', JStr (lit ''ok''))]) \<and>
   lastUploadedFileName (uploadFile demo_engine (Responded upload_ok) picked_csv) = Str (lit ''a.csv'') \<and>
   statusText (uploadFile demo_engine (Responded upload_ok) picked_csv) = lit ''ok'' \<and>
   chatBox (uploadFile demo_engine (Responded upload_ok) picked_csv) =
     chatBox picked_csv @ [message_div (nextNode picked_csv) (lit ''bot'') (uploaded_text (lit ''a.csv''))]"
proof -
  have c: "csvFile picked_csv = Some \<lparr>file_name = lit ''a.csv'', file_bytes = []\<rparr>"
    by (simp add: picked_csv_def)
  have b: "json_body upload_ok =
     Inr (JObj [(lit ''filename'', JStr (lit ''a.csv'')), (lit ''message'', JStr (lit ''ok''))])"
    by (simp add: upload_ok_def)
  have f: "map_of [(lit ''filename'', JStr (lit ''a.csv'')), (lit ''message'', JStr (lit ''ok''))]
             (lit ''filename'') = Some (JStr (lit ''a.csv''))"
    by simp
  have m: "map_of [(lit ''filename'', JStr (lit ''a.csv'')), (lit ''message'', JStr (lit ''ok''))]
             (lit ''message'') = Some (JStr (lit ''ok''))"
    by (simp add: lit_def)
  from C2_successful_upload [OF c ok_upload_ok b f m, of demo_engine] c ok_upload_ok b
  show ?thesis by blast
qed

text \<open>
  C7. With no file selected, \<^verbatim>\<open>uploadFile\<close> ends in its first, synchronous half: no
  request is pending or recorded, the status area shows the error
  \<^verbatim>\<open>Please select a file first.\<close>, and the remembered file name is unchanged.
\<close>

theorem C7_no_file_selected:
  assumes "csvFile st = None"
  shows "requests (uploadFile E out st) = requests st \<and>
         snd (uploadFile_begin st) = False \<and>
         uploadFile E out st = fst (uploadFile_begin st) \<and>
         statusText (uploadFile E out st) = lit ''Please select a file first.'' \<and>
         statusClass (uploadFile E out st) = lit ''status-message error'' \<and>
         lastUploadedFileName (uploadFile E out st) = lastUploadedFileName st"
  by (simp add: uploadFile_def uploadFile_begin_none [OF assms] status_class_error)

theorem C7_no_file_selected_witness:
  "csvFile loaded_page = None \<and>
   requests (uploadFile demo_engine (Responded upload_ok) loaded_page) = requests loaded_page \<and>
   statusText (uploadFile demo_engine (Responded upload_ok) loaded_page) = lit ''Please select a file first.''"
proof -
  have c: "csvFile loaded_page = None"
    by (simp add: loaded_page_def on_load_def blank_page_def addMessage_eq)
  from C7_no_file_selected [OF c, of demo_engine "Responded upload_ok"] c
  show ?thesis by blast
qed

text \<open>
  C3. As stated, the claim fails in its last clause: a successful completion of
  \<^verbatim>\<open>uploadFile\<close> assigns whatever the body has as its \<^verbatim>\<open>filename\<close> (line 112, no
  check), so a success response that names no file sets a remembered name back to
  \<^verbatim>\<open>undefined\<close>. Here \<open>a.csv\<close> has been remembered, a second upload is answered
  with status 200 and the body \<^verbatim>\<open>{message: "ok"}\<close>; the \<^verbatim>\<open>try\<close> block runs to its
  end, the status area shows the success \<^verbatim>\<open>ok\<close>, and the remembered name is
  \<^verbatim>\<open>undefined\<close>.
\<close>

theorem C3_successful_upload_resets_name:
  "lastUploadedFileName remembered_a = Str (lit ''a.csv'') \<and>
   csvFile remembered_a = Some \<lparr>file_name = lit ''a.csv'', file_bytes = []\<rparr> \<and>
   uploadFile_try (Responded upload_no_name) (fst (uploadFile_begin remembered_a)) =
     Done forgotten \<and>
   uploadFile demo_engine (Responded upload_no_name) remembered_a = forgotten \<and>
   lastUploadedFileName forgotten = Undefined \<and>
   statusText forgotten = lit ''ok'' \<and>
   statusClass forgotten = lit ''status-message success''"
proof -
  have u: "uploadFile demo_engine (Responded upload_no_name) remembered_a = forgotten"
    by (simp add: uploadFile_def uploadFile_begin_some [OF csvFile_remembered_a] forgotten_eq)
  from remembered_a_value csvFile_remembered_a forgotten_try u forgotten_name forgotten_status
  show ?thesis by (intro conjI)
qed

text \<open>
  C3, amended. The variable \<^verbatim>\<open>lastUploadedFileName\<close> is written by a successful
  completion of \<^verbatim>\<open>uploadFile\<close>, which sets it to the \<^verbatim>\<open>filename\<close> of the body,
  whatever that is, and is left unchanged by every other operation and by the failing
  paths the claim lists:
  \<^item> over any sequence of events in which no upload settles with a success status and a
    parsed body, it keeps its value;
  \<^item> \<^verbatim>\<open>sendMessage\<close> keeps it however its request settles;
  \<^item> \<^verbatim>\<open>uploadFile\<close> keeps it when no file is selected, when \<^verbatim>\<open>fetch\<close> rejects,
    when the response is not a success, when the body does not parse, when the body is
    \<^verbatim>\<open>null\<close>, and when the body's \<^verbatim>\<open>message\<close> cannot be shown;
  \<^item> when the \<^verbatim>\<open>try\<close> block of \<^verbatim>\<open>uploadFile\<close> runs to its end, the response was a
    success, its body parsed, and the remembered name is the body's \<^verbatim>\<open>filename\<close>
    (\<^verbatim>\<open>undefined\<close> when the body has none);
  \<^item> for a success body whose \<^verbatim>\<open>filename\<close> and \<^verbatim>\<open>message\<close> are strings, the block
    runs to its end and the remembered name is that \<^verbatim>\<open>filename\<close>.
  Nothing is said of the one remaining path, a success response whose \<^verbatim>\<open>filename\<close>
  cannot be converted to a string at line 113.
\<close>

theorem C3_remembered_filename_frame:
  "((\<forall>ev \<in> set evs. \<not> ok_parsed_upload ev) \<longrightarrow>
      lastUploadedFileName (run E evs st) = lastUploadedFileName st) \<and>
   lastUploadedFileName (sendMessage out st) = lastUploadedFileName st \<and>
   (csvFile st = None \<longrightarrow>
      lastUploadedFileName (uploadFile E out st) = lastUploadedFileName st) \<and>
   lastUploadedFileName (uploadFile E (Rejected err) st) = lastUploadedFileName st \<and>
   (\<not> ok r \<longrightarrow>
      lastUploadedFileName (uploadFile E (Responded r) st) = lastUploadedFileName st) \<and>
   (json_body r = Inl e \<longrightarrow>
      lastUploadedFileName (uploadFile E (Responded r) st) = lastUploadedFileName st) \<and>
   (json_body r = Inr JNull \<longrightarrow>
      lastUploadedFileName (uploadFile E (Responded r) st) = lastUploadedFileName st) \<and>
   (json_body r = Inr d \<and> get_prop d (lit ''message'') = Inr v \<and> text_of v = Inl e' \<longrightarrow>
      lastUploadedFileName (uploadFile E (Responded r) st) = lastUploadedFileName st) \<and>
   (uploadFile_try out st = Done s \<longrightarrow>
      uploadFile_complete E out st = s \<and>
      (\<exists>r d. out = Responded r \<and> ok r \<and> json_body r = Inr d \<and>
         get_prop d (lit ''filename'') = Inr (lastUploadedFileName s))) \<and>
   (ok r \<and> json_body r = Inr (JObj fs) \<and> map_of fs (lit ''filename'') = Some (JStr fn) \<and>
    map_of fs (lit ''message'') = Some (JStr m) \<longrightarrow>
      (\<exists>s. uploadFile_try (Responded r) st = Done s) \<and>
      lastUploadedFileName (uploadFile_complete E (Responded r) st) = Str fn)"
proof -
  have strings: "ok r \<and> json_body r = Inr (JObj fs) \<and>
      map_of fs (lit ''filename'') = Some (JStr fn) \<and>
      map_of fs (lit ''message'') = Some (JStr m) \<longrightarrow>
      (\<exists>s. uploadFile_try (Responded r) st = Done s) \<and>
      lastUploadedFileName (uploadFile_complete E (Responded r) st) = Str fn"
    using uploadFile_try_strings [of r fs fn m st]
    by (simp add: upload_success_state)
  have ended: "uploadFile_try out st = Done s \<longrightarrow>
      uploadFile_complete E out st = s \<and>
      (\<exists>r d. out = Responded r \<and> ok r \<and> json_body r = Inr d \<and>
         get_prop d (lit ''filename'') = Inr (lastUploadedFileName s))"
    using uploadFile_try_Done_complete [of out st s E] uploadFile_try_Done_written [of out st s]
    by blast
  from run_remembered [of evs E st] sendMessage_remembered [of out st]
    uploadFile_no_file_remembered [of st E out] uploadFile_rejected_remembered [of E err st]
    uploadFile_not_ok_remembered [of r E st] uploadFile_unparsed_remembered [of r e E st]
    uploadFile_null_body_remembered [of r E st]
    uploadFile_message_unshown_remembered [of r d v e' E st]
    ended strings
  show ?thesis by blast
qed

theorem C3_remembered_filename_witness:
  "filter ok_parsed_upload quiet_run = [] \<and>
   lastUploadedFileName (run demo_engine quiet_run remembered_a) = Str (lit ''a.csv'') \<and>
   snd (sendMessage_begin (run demo_engine [Typed (lit ''  hi '')] remembered_a)) = Some 3 \<and>
   csvFile loaded_page = None \<and>
   lastUploadedFileName (uploadFile demo_engine (Responded upload_ok) loaded_page) =
     lastUploadedFileName loaded_page \<and>
   \<not> ok error_null \<and>
   lastUploadedFileName (uploadFile demo_engine (Responded error_null) remembered_a) =
     Str (lit ''a.csv'') \<and>
   json_body ok_garbled = Inl (BodyFailed (lit ''Unexpected token'')) \<and>
   lastUploadedFileName (uploadFile demo_engine (Responded ok_garbled) remembered_a) =
     Str (lit ''a.csv'') \<and>
   json_body error_null = Inr JNull \<and>
   text_of (Json (JObj [(lit ''toString'', JNum False (lit ''1''))])) = Inl NotPrimitive \<and>
   lastUploadedFileName (uploadFile demo_engine (Responded upload_odd_message) remembered_a) =
     Str (lit ''a.csv'') \<and>
   uploadFile_try (Responded upload_no_name) (fst (uploadFile_begin remembered_a)) =
     Done forgotten \<and>
   get_prop (JObj [(lit ''message'', JStr (lit ''ok''))]) (lit ''filename'') =
     Inr (lastUploadedFileName forgotten) \<and>
   ok upload_ok \<and>
   lastUploadedFileName (uploadFile_complete demo_engine (Responded upload_ok) picked_csv) =
     Str (lit ''a.csv'')"
proof -
  have q0: "filter ok_parsed_upload quiet_run = []"
    by (simp add: quiet_run_def ok_def)
  then have q: "\<forall>ev \<in> set quiet_run. \<not> ok_parsed_upload ev"
    by (simp add: filter_empty_conv)
  have c: "csvFile loaded_page = None"
    by (simp add: loaded_page_def on_load_def blank_page_def addMessage_eq)
  have g: "json_body ok_garbled = Inl (BodyFailed (lit ''Unexpected token''))"
    by (simp add: ok_garbled_def)
  have ub: "json_body upload_ok =
     Inr (JObj [(lit ''filename'', JStr (lit ''a.csv'')), (lit ''message'', JStr (lit ''ok''))])"
    by (simp add: upload_ok_def)
  have uf: "map_of [(lit ''filename'', JStr (lit ''a.csv'')), (lit ''message'', JStr (lit ''ok''))]
          (lit ''filename'') = Some (JStr (lit ''a.csv''))"
    by simp
  have um: "map_of [(lit ''filename'', JStr (lit ''a.csv'')), (lit ''message'', JStr (lit ''ok''))]
          (lit ''message'') = Some (JStr (lit ''ok''))"
    by (simp add: lit_def)
  have nb: "json_body upload_no_name = Inr (JObj [(lit ''message'', JStr (lit ''ok''))])"
    by (simp add: upload_no_name_def)
  have ph: "snd (sendMessage_begin (run demo_engine [Typed (lit ''  hi '')] remembered_a)) = Some 3"
    by (simp add: sendMessage_begin_def trim_def lit_def is_space_def addMessage_eq
        createElement_def fetch_def Let_def remembered_a_def uploadFile_def picked_csv_def
        uploadFile_begin_some upload_ok_state loaded_page_def on_load_def blank_page_def)
  have en: "json_body error_null = Inr JNull"
    by (simp add: error_null_def)
  have ob: "json_body upload_odd_message =
      Inr (JObj [(lit ''message'', JObj [(lit ''toString'', JNum False (lit ''1''))]),
                 (lit ''filename'', JStr (lit ''b.csv''))])"
    by (simp add: upload_odd_message_def)
  have om: "get_prop (JObj [(lit ''message'', JObj [(lit ''toString'', JNum False (lit ''1''))]),
                 (lit ''filename'', JStr (lit ''b.csv''))]) (lit ''message'') =
      Inr (Json (JObj [(lit ''toString'', JNum False (lit ''1''))]))"
    by simp
  have ot: "text_of (Json (JObj [(lit ''toString'', JNum False (lit ''1''))])) = Inl NotPrimitive"
    by simp
  note at_o = C3_remembered_filename_frame
    [where E = demo_engine and st = remembered_a and r = upload_odd_message
       and d = "JObj [(lit ''message'', JObj [(lit ''toString'', JNum False (lit ''1''))]),
                      (lit ''filename'', JStr (lit ''b.csv''))]"
       and v = "Json (JObj [(lit ''toString'', JNum False (lit ''1''))])"
       and e' = NotPrimitive]
  from at_o ob om ot
  have "lastUploadedFileName (uploadFile demo_engine (Responded upload_odd_message) remembered_a) =
      lastUploadedFileName remembered_a"
    by blast
  then have o: "lastUploadedFileName (uploadFile demo_engine (Responded upload_odd_message) remembered_a) =
      Str (lit ''a.csv'')"
    by (simp only: remembered_a_value)
  note at_a = C3_remembered_filename_frame
    [where evs = quiet_run and E = demo_engine and st = remembered_a and r = error_null]
  note at_g = C3_remembered_filename_frame
    [where E = demo_engine and st = remembered_a and r = ok_garbled
       and e = "BodyFailed (lit ''Unexpected token'')"]
  note at_l = C3_remembered_filename_frame
    [where E = demo_engine and st = loaded_page and out = "Responded upload_ok"]
  note at_n = C3_remembered_filename_frame
    [where E = demo_engine and st = "fst (uploadFile_begin remembered_a)"
       and out = "Responded upload_no_name" and s = forgotten]
  note at_p = C3_remembered_filename_frame
    [where E = demo_engine and st = picked_csv and r = upload_ok
       and fs = "[(lit ''filename'', JStr (lit ''a.csv'')), (lit ''message'', JStr (lit ''ok''))]"
       and fn = "lit ''a.csv''" and m = "lit ''ok''"]
  from at_a q have "lastUploadedFileName (run demo_engine quiet_run remembered_a) =
      lastUploadedFileName remembered_a"
    by blast
  then have a: "lastUploadedFileName (run demo_engine quiet_run remembered_a) = Str (lit ''a.csv'')"
    by (simp only: remembered_a_value)
  from at_l c have l: "lastUploadedFileName (uploadFile demo_engine (Responded upload_ok) loaded_page) =
     lastUploadedFileName loaded_page"
    by blast
  from at_a not_ok_error_null
  have "lastUploadedFileName (uploadFile demo_engine (Responded error_null) remembered_a) =
      lastUploadedFileName remembered_a"
    by blast
  then have b: "lastUploadedFileName (uploadFile demo_engine (Responded error_null) remembered_a) =
      Str (lit ''a.csv'')"
    by (simp only: remembered_a_value)
  from at_g g
  have "lastUploadedFileName (uploadFile demo_engine (Responded ok_garbled) remembered_a) =
      lastUploadedFileName remembered_a"
    by blast
  then have d: "lastUploadedFileName (uploadFile demo_engine (Responded ok_garbled) remembered_a) =
      Str (lit ''a.csv'')"
    by (simp only: remembered_a_value)
  from at_n forgotten_try
  obtain r' d' where "Responded upload_no_name = Responded r'" and "json_body r' = Inr d'"
    and "get_prop d' (lit ''filename'') = Inr (lastUploadedFileName forgotten)"
    by blast
  with nb have n: "get_prop (JObj [(lit ''message'', JStr (lit ''ok''))]) (lit ''filename'') =
     Inr (lastUploadedFileName forgotten)"
    by simp
  from at_p ok_upload_ok ub uf um
  have v: "lastUploadedFileName (uploadFile_complete demo_engine (Responded upload_ok) picked_csv) =
     Str (lit ''a.csv'')"
    by blast
  from q0 a ph c l not_ok_error_null b g d en ot o forgotten_try n ok_upload_ok v
  show ?thesis by (intro conjI)
qed

text \<open>
  C4. The claim is that a status that supersedes an earlier one stays for its own full
  delay. \<^verbatim>\<open>setUploadStatus\<close> starts a timer at every call and cancels none, and the
  callback does not look at which status is shown (lemma
  \<open>stale_timer_clears_newer_status\<close>). Evaluated here on an upload whose response
  arrives after 3000 ms: the success status \<^verbatim>\<open>ok\<close> is set at 3000, with the timers of
  5000 (from \<^verbatim>\<open>Uploading...\<close>) and 8000 (its own) pending; at 5000, after 2000 ms
  instead of 5000, the status area is empty, and the timer of 8000 is still pending.
\<close>

theorem C4_stale_timer_clears_newer_status:
  "statusText (run demo_engine [UploadClicked, Elapsed 3000, UploadSettled (Responded upload_ok)] picked_csv)
     = lit ''ok'' \<and>
   now (run demo_engine [UploadClicked, Elapsed 3000, UploadSettled (Responded upload_ok)] picked_csv)
     = 3000 \<and>
   timers (run demo_engine [UploadClicked, Elapsed 3000, UploadSettled (Responded upload_ok)] picked_csv)
     = [5000, 8000] \<and>
   statusText (run demo_engine
      [UploadClicked, Elapsed 3000, UploadSettled (Responded upload_ok), Elapsed 2000] picked_csv) = [] \<and>
   now (run demo_engine
      [UploadClicked, Elapsed 3000, UploadSettled (Responded upload_ok), Elapsed 2000] picked_csv) = 5000 \<and>
   timers (run demo_engine
      [UploadClicked, Elapsed 3000, UploadSettled (Responded upload_ok), Elapsed 2000] picked_csv) = [8000]"
  by (simp add: picked_csv_def uploadFile_begin_some upload_ok_state
      elapse_def status_delay_def clear_status_def
      loaded_page_def on_load_def blank_page_def addMessage_eq)

end
